theory Spec2Isabelle
  imports Complex_Main "HOL-Library.AList"
begin

section \<open>Python values\<close>

text \<open>
  A Python \<open>str\<close> is a sequence of code points, so a text is a list of code points.
  The ASCII literals of the source are written with \<open>ascii\<close>; the Cyrillic ones are
  spelled out as code points. Dictionary keys are only ever compared for equality, so a
  key is kept as an Isabelle string. A \<open>dict\<close> is an association list in insertion
  order with distinct keys: \<open>map_of\<close> reads it and \<open>AList.update\<close> stores into it
  (in place for a known key, at the end for a new one), as Python does.
\<close>

type_synonym pystr = "int list"

definition ascii :: "string \<Rightarrow> pystr" where
  "ascii s = map of_char s"

text \<open>A finite \<open>float\<close> is \<open>m * 2 ^ e\<close>, kept as the pair \<open>Finite m e\<close>.\<close>

datatype pyfloat = Finite int int | PosInf | NegInf | NaN

datatype pyval =
    PNone
  | PBool bool
  | PInt int
  | PFloat pyfloat
  | PStr pystr
  | PList "pyval list"
  | PDict "(string \<times> pyval) list"

type_synonym pydict = "(string \<times> pyval) list"

subsection \<open>Exceptions\<close>

text \<open>
  errors.py: \<open>AIServiceError\<close> and its subclasses differ only in the three attributes
  set by their constructors. Every other exception is its class and its \<open>str()\<close>.
\<close>

record AIServiceError =
  message :: pystr
  user_message :: pystr
  recoverable :: bool

datatype exc_class =
    RateLimitError | APIConnectionError | APITimeoutError | AuthenticationError
  | APIStatusError | APIError
  | ValueError | TypeError | AttributeError | OverflowError | IndexError
  | OtherException

datatype pyexc = Exc exc_class pystr | ServiceError AIServiceError

subsection \<open>Truthiness, \<open>dict.get\<close>, type names\<close>

fun truthy :: "pyval \<Rightarrow> bool" where
  "truthy PNone = False"
| "truthy (PBool b) = b"
| "truthy (PInt i) = (i \<noteq> 0)"
| "truthy (PFloat (Finite m e)) = (m \<noteq> 0)"
| "truthy (PFloat _) = True"
| "truthy (PStr s) = (s \<noteq> [])"
| "truthy (PList xs) = (xs \<noteq> [])"
| "truthy (PDict kvs) = (kvs \<noteq> [])"

definition dict_get :: "pydict \<Rightarrow> string \<Rightarrow> pyval" where
  "dict_get d k = (case map_of d k of None \<Rightarrow> PNone | Some v \<Rightarrow> v)"

definition dict_get_default :: "pydict \<Rightarrow> string \<Rightarrow> pyval \<Rightarrow> pyval" where
  "dict_get_default d k dflt = (case map_of d k of None \<Rightarrow> dflt | Some v \<Rightarrow> v)"

fun type_name :: "pyval \<Rightarrow> string" where
  "type_name PNone = ''NoneType''"
| "type_name (PBool _) = ''bool''"
| "type_name (PInt _) = ''int''"
| "type_name (PFloat _) = ''float''"
| "type_name (PStr _) = ''str''"
| "type_name (PList _) = ''list''"
| "type_name (PDict _) = ''dict''"

subsection \<open>Strings\<close>

text \<open>
  \<open>str.lower\<close> is given on the blocks Basic Latin (U+0000 to U+007F) and Cyrillic
  (U+0400 to U+04FF), where the markers and the slot texts of this program live; the
  other code points are left as they are.
\<close>

definition lower_cp :: "int \<Rightarrow> int" where
  "lower_cp c =
     (if 65 \<le> c \<and> c \<le> 90 then c + 32
      else if 1040 \<le> c \<and> c \<le> 1071 then c + 32
      else if 1024 \<le> c \<and> c \<le> 1039 then c + 80
      else if 1120 \<le> c \<and> c \<le> 1153 \<and> even c then c + 1
      else if 1162 \<le> c \<and> c \<le> 1215 \<and> even c then c + 1
      else if c = 1216 then 1231
      else if 1217 \<le> c \<and> c \<le> 1230 \<and> odd c then c + 1
      else if 1232 \<le> c \<and> c \<le> 1279 \<and> even c then c + 1
      else c)"

definition py_lower :: "pystr \<Rightarrow> pystr" where
  "py_lower s = map lower_cp s"

definition replace_cp :: "int \<Rightarrow> int \<Rightarrow> pystr \<Rightarrow> pystr" where
  "replace_cp a b s = map (\<lambda>c. if c = a then b else c) s"

definition remove_cp :: "int \<Rightarrow> pystr \<Rightarrow> pystr" where
  "remove_cp a s = filter (\<lambda>c. c \<noteq> a) s"

text \<open>A text between apostrophes, as Python's messages quote names.\<close>

definition quoted :: "pystr \<Rightarrow> pystr" where
  "quoted s = [39] @ s @ [39]"

text \<open>\<open>needle in haystack\<close>.\<close>

fun contains :: "pystr \<Rightarrow> pystr \<Rightarrow> bool" where
  "contains needle [] = (needle = [])"
| "contains needle (c # cs) =
     (take (length needle) (c # cs) = needle \<or> contains needle cs)"

text \<open>The white space of \<open>str.isspace\<close>, which \<open>str.strip()\<close> removes at both ends.\<close>

definition is_space :: "int \<Rightarrow> bool" where
  "is_space c =
     ((9 \<le> c \<and> c \<le> 13) \<or> (28 \<le> c \<and> c \<le> 32) \<or> c = 133 \<or> c = 160 \<or> c = 5760
      \<or> (8192 \<le> c \<and> c \<le> 8202) \<or> c = 8232 \<or> c = 8233 \<or> c = 8239 \<or> c = 8287
      \<or> c = 12288)"

definition strip :: "pystr \<Rightarrow> pystr" where
  "strip s = rev (dropWhile is_space (rev (dropWhile is_space s)))"

text \<open>
  The class \<open>\d\<close> of \<open>re\<close>, which is also what \<open>float\<close> reads as digits: the decimal
  digits of Unicode (category Nd, here of Unicode 14.0, the table of CPython 3.11). They
  come in runs of ten, from the zero of a script to its nine; \<open>digit_zeros\<close> lists the
  zeros.
\<close>

definition digit_zeros :: "int list" where
  "digit_zeros =
     [48, 1632, 1776, 1984, 2406, 2534, 2662, 2790, 2918, 3046, 3174, 3302, 3430, 3558,
      3664, 3792, 3872, 4160, 4240, 6112, 6160, 6470, 6608, 6784, 6800, 6992, 7088, 7232,
      7248, 42528, 43216, 43264, 43472, 43504, 43600, 44016, 65296, 66720, 68912, 69734,
      69872, 69942, 70096, 70384, 70736, 70864, 71248, 71360, 71472, 71904, 72016, 72784,
      73040, 73120, 92768, 92864, 93008, 120782, 120792, 120802, 120812, 120822, 123200,
      123632, 125264, 130032]"

definition is_digit :: "int \<Rightarrow> bool" where
  "is_digit c = list_ex (\<lambda>z. z \<le> c \<and> c \<le> z + 9) digit_zeros"

definition digit_of :: "int \<Rightarrow> int" where
  "digit_of c =
     (case filter (\<lambda>z. z \<le> c \<and> c \<le> z + 9) digit_zeros of
        z # _ \<Rightarrow> c - z
      | [] \<Rightarrow> 0)"

text \<open>\<open>re.findall(r'[\d.]+', value)\<close>: the maximal runs of digits and full stops.\<close>

definition num_char :: "int \<Rightarrow> bool" where
  "num_char c = (is_digit c \<or> c = 46)"

function findall_numbers :: "pystr \<Rightarrow> pystr list" where
  "findall_numbers [] = []"
| "findall_numbers (c # cs) =
     (if num_char c
      then takeWhile num_char (c # cs) # findall_numbers (dropWhile num_char cs)
      else findall_numbers cs)"
  by pat_completeness auto
termination
  by (relation "measure length") (auto simp: length_dropWhile_le less_Suc_eq_le)

subsection \<open>Floats\<close>

text \<open>
  CPython's \<open>float\<close> is IEEE 754 binary64: \<open>float(s)\<close> and \<open>*\<close> round the exact value to
  the nearest double, ties to even, and overflow to infinity. \<open>to_double a b\<close> is the
  double nearest to the fraction \<open>a / b\<close> of \<open>0 \<le> a\<close> and \<open>0 < b\<close>.
\<close>

function bit_length :: "int \<Rightarrow> int" where
  "bit_length n = (if n \<le> 0 then 0 else 1 + bit_length (n div 2))"
  by pat_completeness auto
termination
  by (relation "measure nat") auto

declare bit_length.simps [simp del]

definition round_half_even :: "int \<Rightarrow> int \<Rightarrow> int" where
  "round_half_even a b =
     (let q = a div b; r = a mod b
      in if 2 * r < b then q
         else if b < 2 * r then q + 1
         else if even q then q else q + 1)"

definition floor_log2 :: "int \<Rightarrow> int \<Rightarrow> int" where
  "floor_log2 a b =
     (let k = bit_length a - bit_length b
      in if (if 0 \<le> k then b * 2 ^ nat k \<le> a else b \<le> a * 2 ^ nat (- k))
         then k else k - 1)"

definition to_double :: "int \<Rightarrow> int \<Rightarrow> pyfloat" where
  "to_double a b =
     (if a = 0 then Finite 0 0
      else
        let e = max (floor_log2 a b - 52) (- 1074);
            m = (if 0 \<le> e then round_half_even a (b * 2 ^ nat e)
                 else round_half_even (a * 2 ^ nat (- e)) b)
        in if 971 < e \<or> (e = 971 \<and> 2 ^ 53 \<le> m) then PosInf else Finite m e)"

fun float_neg :: "pyfloat \<Rightarrow> pyfloat" where
  "float_neg (Finite m e) = Finite (- m) e"
| "float_neg PosInf = NegInf"
| "float_neg NegInf = PosInf"
| "float_neg NaN = NaN"

text \<open>The double nearest to \<open>m * 2 ^ e\<close>.\<close>

definition round_scaled :: "int \<Rightarrow> int \<Rightarrow> pyfloat" where
  "round_scaled m e =
     (let d = (if 0 \<le> e then to_double (\<bar>m\<bar> * 2 ^ nat e) 1
               else to_double \<bar>m\<bar> (2 ^ nat (- e)))
      in if m < 0 then float_neg d else d)"

text \<open>\<open>x * n\<close> for a float \<open>x\<close> and an \<open>int\<close> that converts to a float exactly.\<close>

fun float_times :: "pyfloat \<Rightarrow> int \<Rightarrow> pyfloat" where
  "float_times (Finite m e) n = round_scaled (m * n) e"
| "float_times PosInf n = (if 0 < n then PosInf else if n < 0 then NegInf else NaN)"
| "float_times NegInf n = (if 0 < n then NegInf else if n < 0 then PosInf else NaN)"
| "float_times NaN n = NaN"

text \<open>\<open>x < n\<close> and \<open>x >= n\<close> for a float and an \<open>int\<close>: Python compares the exact values.\<close>

fun float_less :: "pyfloat \<Rightarrow> int \<Rightarrow> bool" where
  "float_less (Finite m e) n =
     (if 0 \<le> e then m * 2 ^ nat e < n else m < n * 2 ^ nat (- e))"
| "float_less PosInf n = False"
| "float_less NegInf n = True"
| "float_less NaN n = False"

fun float_ge :: "pyfloat \<Rightarrow> int \<Rightarrow> bool" where
  "float_ge (Finite m e) n =
     (if 0 \<le> e then n \<le> m * 2 ^ nat e else n * 2 ^ nat (- e) \<le> m)"
| "float_ge PosInf n = True"
| "float_ge NegInf n = False"
| "float_ge NaN n = False"

text \<open>\<open>int(x)\<close>: truncation towards zero; infinities and NaN raise.\<close>

fun int_of_float :: "pyfloat \<Rightarrow> pyexc + int" where
  "int_of_float (Finite m e) =
     Inr (if 0 \<le> e then m * 2 ^ nat e
          else if 0 \<le> m then m div 2 ^ nat (- e)
          else - ((- m) div 2 ^ nat (- e)))"
| "int_of_float NaN = Inl (Exc ValueError (ascii ''cannot convert float NaN to integer''))"
| "int_of_float _ = Inl (Exc OverflowError (ascii ''cannot convert float infinity to integer''))"

text \<open>
  \<open>float(s)\<close> for a string of digits and full stops, which is all the pattern
  \<open>[\d.]+\<close> lets through: at most one full stop and at least one digit, or
  \<open>ValueError\<close>.
\<close>

definition digits_value :: "pystr \<Rightarrow> int" where
  "digits_value ds = foldl (\<lambda>a c. 10 * a + digit_of c) 0 ds"

definition float_of_str :: "pystr \<Rightarrow> pyexc + pyfloat" where
  "float_of_str s =
     (let ip = takeWhile is_digit s; rest = dropWhile is_digit s;
          fp = (case rest of [] \<Rightarrow> [] | _ # t \<Rightarrow> t)
      in if list_all is_digit fp \<and> ip @ fp \<noteq> [] \<and> (rest = [] \<or> hd rest = 46)
         then Inr (to_double (digits_value (ip @ fp)) (10 ^ length fp))
         else Inl (Exc ValueError (ascii ''could not convert string to float: '' @ quoted s)))"

section \<open>agent.py: the budget normaliser\<close>

text \<open>The markers: U+043C U+043B U+043D (mln), (million), (tys) and (tysyach).\<close>

definition marker_mln :: pystr where
  "marker_mln = [1084, 1083, 1085]"

definition marker_million :: pystr where
  "marker_million = [1084, 1080, 1083, 1083, 1080, 1086, 1085]"

definition marker_tys :: pystr where
  "marker_tys = [1090, 1099, 1089]"

definition marker_tysyach :: pystr where
  "marker_tysyach = [1090, 1099, 1089, 1103, 1095]"

definition int_of :: "pyfloat \<Rightarrow> pyexc + pyval" where
  "int_of x = (case int_of_float x of Inl e \<Rightarrow> Inl e | Inr i \<Rightarrow> Inr (PInt i))"

text \<open>\<open>AutoImportAgent._parse_budget\<close>. A \<open>bool\<close> is an \<open>int\<close> in Python.\<close>

definition parse_budget :: "pyval \<Rightarrow> pyexc + pyval" where
  "parse_budget v =
     (case v of
        PInt i \<Rightarrow> Inr (PInt i)
      | PBool b \<Rightarrow> Inr (PInt (if b then 1 else 0))
      | PFloat x \<Rightarrow> int_of x
      | PStr s \<Rightarrow>
          (let val = replace_cp 44 46 (remove_cp 32 (py_lower s));
               numbers = findall_numbers val
           in case numbers of
                [] \<Rightarrow> Inr PNone
              | tok # _ \<Rightarrow>
                  (case float_of_str tok of
                     Inl e \<Rightarrow> Inl e
                   | Inr num \<Rightarrow>
                       if contains marker_mln val \<or> contains marker_million val
                       then int_of (float_times num 1000000)
                       else if contains marker_tys val \<or> contains marker_tysyach val
                       then int_of (float_times num 1000)
                       else if float_less num 100
                       then int_of (float_times num 1000000)
                       else int_of num))
      | _ \<Rightarrow> Inr PNone)"

section \<open>errors.py\<close>

subsection \<open>The error taxonomy\<close>

text \<open>The user-facing messages of the \<open>AIServiceError\<close> subclasses, as code points.\<close>

definition rate_limit_user_message :: pystr where
  "rate_limit_user_message =
     [1057, 1077, 1088, 1074, 1080, 1089, 32, 1074, 1088, 1077, 1084, 1077, 1085, 1085,
      1086, 32, 1087, 1077, 1088, 1077, 1075, 1088, 1091, 1078, 1077, 1085, 46, 32, 1055,
      1086, 1078, 1072, 1083, 1091, 1081, 1089, 1090, 1072, 44, 32, 1087, 1086, 1076, 1086,
      1078, 1076, 1080, 1090, 1077, 32, 1085, 1077, 1089, 1082, 1086, 1083, 1100, 1082,
      1086, 32, 1089, 1077, 1082, 1091, 1085, 1076, 32, 1080, 32, 1087, 1086, 1087, 1088,
      1086, 1073, 1091, 1081, 1090, 1077, 32, 1089, 1085, 1086, 1074, 1072, 46]"

definition connection_user_message :: pystr where
  "connection_user_message =
     [1053, 1077, 32, 1091, 1076, 1072, 1083, 1086, 1089, 1100, 32, 1087, 1086, 1076, 1082,
      1083, 1102, 1095, 1080, 1090, 1100, 1089, 1103, 32, 1082, 32, 1089, 1077, 1088, 1074,
      1080, 1089, 1091, 46, 32, 1055, 1088, 1086, 1074, 1077, 1088, 1100, 1090, 1077, 32,
      1080, 1085, 1090, 1077, 1088, 1085, 1077, 1090, 45, 1089, 1086, 1077, 1076, 1080,
      1085, 1077, 1085, 1080, 1077, 46]"

definition timeout_user_message :: pystr where
  "timeout_user_message =
     [1047, 1072, 1087, 1088, 1086, 1089, 32, 1079, 1072, 1085, 1103, 1083, 32, 1089, 1083,
      1080, 1096, 1082, 1086, 1084, 32, 1084, 1085, 1086, 1075, 1086, 32, 1074, 1088, 1077,
      1084, 1077, 1085, 1080, 46, 32, 1055, 1086, 1087, 1088, 1086, 1073, 1091, 1081, 1090,
      1077, 32, 1077, 1097, 1105, 32, 1088, 1072, 1079, 46]"

definition auth_user_message :: pystr where
  "auth_user_message =
     [1054, 1096, 1080, 1073, 1082, 1072, 32, 1082, 1086, 1085, 1092, 1080, 1075, 1091,
      1088, 1072, 1094, 1080, 1080, 32, 1089, 1077, 1088, 1074, 1080, 1089, 1072, 46, 32,
      1054, 1073, 1088, 1072, 1090, 1080, 1090, 1077, 1089, 1100, 32, 1082, 32, 1072, 1076,
      1084, 1080, 1085, 1080, 1089, 1090, 1088, 1072, 1090, 1086, 1088, 1091, 46]"

definition api_error_user_message :: pystr where
  "api_error_user_message =
     [1055, 1088, 1086, 1080, 1079, 1086, 1096, 1083, 1072, 32, 1086, 1096, 1080, 1073,
      1082, 1072, 32, 1087, 1088, 1080, 32, 1086, 1073, 1088, 1072, 1073, 1086, 1090, 1082,
      1077, 32, 1079, 1072, 1087, 1088, 1086, 1089, 1072, 46, 32, 1055, 1086, 1087, 1088,
      1086, 1073, 1091, 1081, 1090, 1077, 32, 1077, 1097, 1105, 32, 1088, 1072, 1079, 46]"

definition unknown_user_message :: pystr where
  "unknown_user_message =
     [1055, 1088, 1086, 1080, 1079, 1086, 1096, 1083, 1072, 32, 1085, 1077, 1087, 1088,
      1077, 1076, 1074, 1080, 1076, 1077, 1085, 1085, 1072, 1103, 32, 1086, 1096, 1080,
      1073, 1082, 1072, 46, 32, 1052, 1099, 32, 1091, 1078, 1077, 32, 1088, 1072, 1073,
      1086, 1090, 1072, 1077, 1084, 32, 1085, 1072, 1076, 32, 1077, 1105, 32, 1091, 1089,
      1090, 1088, 1072, 1085, 1077, 1085, 1080, 1077, 1084, 46]"

definition RateLimitExceeded :: AIServiceError where
  "RateLimitExceeded =
     \<lparr>message = ascii ''OpenAI rate limit exceeded'',
      user_message = rate_limit_user_message, recoverable = True\<rparr>"

definition AIConnectionError :: AIServiceError where
  "AIConnectionError =
     \<lparr>message = ascii ''Failed to connect to OpenAI API'',
      user_message = connection_user_message, recoverable = True\<rparr>"

definition AITimeoutError :: AIServiceError where
  "AITimeoutError =
     \<lparr>message = ascii ''OpenAI API request timed out'',
      user_message = timeout_user_message, recoverable = True\<rparr>"

definition AIAuthError :: AIServiceError where
  "AIAuthError =
     \<lparr>message = ascii ''OpenAI API authentication failed'',
      user_message = auth_user_message, recoverable = False\<rparr>"

text \<open>
  The classes that errors.py imports from the \<open>openai\<close> package form a hierarchy there:
  a timeout is a connection error, a rate-limit and an authentication error are status
  errors, and all of them are \<open>APIError\<close>s. \<open>isinstance\<close> follows it.
\<close>

fun superclasses :: "exc_class \<Rightarrow> exc_class list" where
  "superclasses RateLimitError = [APIStatusError, APIError]"
| "superclasses AuthenticationError = [APIStatusError, APIError]"
| "superclasses APITimeoutError = [APIConnectionError, APIError]"
| "superclasses APIConnectionError = [APIError]"
| "superclasses APIStatusError = [APIError]"
| "superclasses _ = []"

fun isinstance :: "pyexc \<Rightarrow> exc_class \<Rightarrow> bool" where
  "isinstance (Exc c txt) d = (c = d \<or> d \<in> set (superclasses c))"
| "isinstance (ServiceError e) d = False"

text \<open>\<open>str(e)\<close>; an \<open>AIServiceError\<close> passes its \<open>message\<close> to \<open>Exception.__init__\<close>.\<close>

fun exc_str :: "pyexc \<Rightarrow> pystr" where
  "exc_str (Exc c txt) = txt"
| "exc_str (ServiceError e) = message e"

definition handle_openai_error :: "pyexc \<Rightarrow> AIServiceError" where
  "handle_openai_error err =
     (if isinstance err RateLimitError then RateLimitExceeded
      else if isinstance err APIConnectionError then AIConnectionError
      else if isinstance err APITimeoutError then AITimeoutError
      else if isinstance err AuthenticationError then AIAuthError
      else if isinstance err APIError then
        \<lparr>message = exc_str err, user_message = api_error_user_message, recoverable = True\<rparr>
      else
        \<lparr>message = exc_str err, user_message = unknown_user_message, recoverable = True\<rparr>)"

subsection \<open>Fallback replies\<close>

definition fallback_greeting :: pystr where
  "fallback_greeting =
     [1047, 1076, 1088, 1072, 1074, 1089, 1090, 1074, 1091, 1081, 1090, 1077, 33, 32,
      128075, 32, 1071, 32, 1082, 1086, 1085, 1089, 1091, 1083, 1100, 1090, 1072, 1085,
      1090, 32, 1040, 1074, 1090, 1086, 1048, 1084, 1087, 1086, 1088, 1090, 32, 80, 114,
      111, 46, 32, 1050, 32, 1089, 1086, 1078, 1072, 1083, 1077, 1085, 1080, 1102, 44, 32,
      1089, 1077, 1081, 1095, 1072, 1089, 32, 1091, 32, 1084, 1077, 1085, 1103, 32, 1090,
      1077, 1093, 1085, 1080, 1095, 1077, 1089, 1082, 1080, 1077, 32, 1089, 1083, 1086,
      1078, 1085, 1086, 1089, 1090, 1080, 44, 32, 1085, 1086, 32, 1103, 32, 1089, 1082,
      1086, 1088, 1086, 32, 1074, 1077, 1088, 1085, 1091, 1089, 1100, 46, 32, 1054, 1089,
      1090, 1072, 1074, 1100, 1090, 1077, 32, 1074, 1072, 1096, 32, 1074, 1086, 1087, 1088,
      1086, 1089, 44, 32, 1080, 32, 1084, 1099, 32, 1086, 1073, 1103, 1079, 1072, 1090,
      1077, 1083, 1100, 1085, 1086, 32, 1089, 1074, 1103, 1078, 1077, 1084, 1089, 1103, 32,
      1089, 32, 1074, 1072, 1084, 1080, 33]"

definition fallback_general :: pystr where
  "fallback_general =
     [1048, 1079, 1074, 1080, 1085, 1080, 1090, 1077, 44, 32, 1074, 1086, 1079, 1085, 1080,
      1082, 1083, 1072, 32, 1090, 1077, 1093, 1085, 1080, 1095, 1077, 1089, 1082, 1072,
      1103, 32, 1086, 1096, 1080, 1073, 1082, 1072, 46, 32, 1055, 1086, 1078, 1072, 1083,
      1091, 1081, 1089, 1090, 1072, 44, 32, 1087, 1086, 1087, 1088, 1086, 1073, 1091, 1081,
      1090, 1077, 32, 1077, 1097, 1105, 32, 1088, 1072, 1079, 32, 1095, 1077, 1088, 1077,
      1079, 32, 1085, 1077, 1089, 1082, 1086, 1083, 1100, 1082, 1086, 32, 1089, 1077, 1082,
      1091, 1085, 1076, 46, 32, 1045, 1089, 1083, 1080, 32, 1087, 1088, 1086, 1073, 1083,
      1077, 1084, 1072, 32, 1087, 1086, 1074, 1090, 1086, 1088, 1080, 1090, 1089, 1103, 32,
      8212, 32, 1086, 1089, 1090, 1072, 1074, 1100, 1090, 1077, 32, 1074, 1072, 1096, 32,
      1090, 1077, 1083, 1077, 1092, 1086, 1085, 44, 32, 1080, 32, 1084, 1077, 1085, 1077,
      1076, 1078, 1077, 1088, 32, 1089, 1074, 1103, 1078, 1077, 1090, 1089, 1103, 32, 1089,
      32, 1074, 1072, 1084, 1080, 46]"

definition fallback_rate_limit :: pystr where
  "fallback_rate_limit =
     [1057, 1077, 1088, 1074, 1080, 1089, 32, 1074, 1088, 1077, 1084, 1077, 1085, 1085,
      1086, 32, 1087, 1077, 1088, 1077, 1075, 1088, 1091, 1078, 1077, 1085, 32, 1080, 1079,
      45, 1079, 1072, 32, 1073, 1086, 1083, 1100, 1096, 1086, 1075, 1086, 32, 1082, 1086,
      1083, 1080, 1095, 1077, 1089, 1090, 1074, 1072, 32, 1079, 1072, 1087, 1088, 1086,
      1089, 1086, 1074, 46, 32, 1055, 1086, 1078, 1072, 1083, 1091, 1081, 1089, 1090, 1072,
      44, 32, 1087, 1086, 1076, 1086, 1078, 1076, 1080, 1090, 1077, 32, 49, 48, 45, 49, 53,
      32, 1089, 1077, 1082, 1091, 1085, 1076, 32, 1080, 32, 1087, 1086, 1087, 1088, 1086,
      1073, 1091, 1081, 1090, 1077, 32, 1089, 1085, 1086, 1074, 1072, 46]"

definition fallback_simulator :: pystr where
  "fallback_simulator =
     [1057, 1080, 1084, 1091, 1083, 1103, 1090, 1086, 1088, 32, 1074, 1088, 1077, 1084,
      1077, 1085, 1085, 1086, 32, 1085, 1077, 1076, 1086, 1089, 1090, 1091, 1087, 1077,
      1085, 46, 32, 1055, 1086, 1087, 1088, 1086, 1073, 1091, 1081, 1090, 1077, 32, 1087,
      1086, 1079, 1078, 1077, 32, 1080, 1083, 1080, 32, 1074, 1099, 1073, 1077, 1088, 1080,
      1090, 1077, 32, 1076, 1088, 1091, 1075, 1086, 1081, 32, 1090, 1080, 1087, 32, 1082,
      1083, 1080, 1077, 1085, 1090, 1072, 46]"

definition FALLBACK_RESPONSES :: "(string \<times> pystr) list" where
  "FALLBACK_RESPONSES =
     [(''greeting'', fallback_greeting), (''general'', fallback_general),
      (''rate_limit'', fallback_rate_limit), (''simulator'', fallback_simulator)]"

definition get_fallback_response :: "string \<Rightarrow> pystr" where
  "get_fallback_response ctx =
     (case map_of FALLBACK_RESPONSES ctx of Some r \<Rightarrow> r | None \<Rightarrow> fallback_general)"

subsection \<open>\<open>ErrorContext\<close>\<close>

record ErrorContext =
  error_count :: int
  last_error_time :: "pyfloat option"
  consecutive_errors :: int

definition new_ErrorContext :: ErrorContext where
  "new_ErrorContext = \<lparr>error_count = 0, last_error_time = None, consecutive_errors = 0\<rparr>"

text \<open>\<open>record_error\<close> reads the clock; \<open>now\<close> is what \<open>time.time()\<close> returns.\<close>

definition record_error :: "pyfloat \<Rightarrow> ErrorContext \<Rightarrow> ErrorContext" where
  "record_error now ctx =
     ctx\<lparr>error_count := error_count ctx + 1,
         consecutive_errors := consecutive_errors ctx + 1,
         last_error_time := Some now\<rparr>"

definition record_success :: "ErrorContext \<Rightarrow> ErrorContext" where
  "record_success ctx = ctx\<lparr>consecutive_errors := 0\<rparr>"

definition should_use_fallback :: "ErrorContext \<Rightarrow> bool" where
  "should_use_fallback ctx = (3 \<le> consecutive_errors ctx)"

subsection \<open>The agent instance and the oracle\<close>

text \<open>
  The agent instance carries the \<open>ErrorContext\<close>. Two counters are added to it to make
  the effects of a call visible: how many times the language model has been invoked
  (\<open>ainvoke\<close>, on \<open>self.llm\<close> or \<open>self.llm_with_tools\<close>) and the delays slept so far.
  The model itself is a script: what its n-th invocation returns or raises.
\<close>

record llm_response =
  content :: pystr
  tool_calls :: "pystr list"

type_synonym llm_script = "nat \<Rightarrow> pyexc + llm_response"

record Agent =
  error_context :: ErrorContext
  llm_calls :: nat
  slept :: "rat list"

definition ainvoke :: "llm_script \<Rightarrow> Agent \<Rightarrow> (pyexc + llm_response) \<times> Agent" where
  "ainvoke llm a = (llm (llm_calls a), a\<lparr>llm_calls := Suc (llm_calls a)\<rparr>)"

definition sleep :: "rat \<Rightarrow> Agent \<Rightarrow> Agent" where
  "sleep delay a = a\<lparr>slept := slept a @ [delay]\<rparr>"

subsection \<open>\<open>with_retry\<close>\<close>

text \<open>
  The decorator's parameters. The delays are floats in the source; they are kept as
  exact rationals (a double times a power of two is exact within range).
\<close>

record retry_config =
  max_retries :: int
  base_delay :: rat
  max_delay :: rat
  exponential_backoff :: bool

definition retry_delay :: "retry_config \<Rightarrow> nat \<Rightarrow> rat" where
  "retry_delay cfg attempt =
     (if exponential_backoff cfg then min (base_delay cfg * 2 ^ attempt) (max_delay cfg)
      else base_delay cfg)"

definition transient :: "pyexc \<Rightarrow> bool" where
  "transient e =
     (isinstance e RateLimitError \<or> isinstance e APIConnectionError
      \<or> isinstance e APITimeoutError)"

text \<open>
  The body of \<open>wrapper\<close>: the \<open>for\<close> loop over \<open>range(max_retries)\<close>, then the lines
  after it. The result is \<open>Inl\<close> the \<open>AIServiceError\<close> raised, or \<open>Inr\<close> the value
  returned (\<open>None\<close> when the function falls off its end).
\<close>

fun retry_loop ::
  "retry_config \<Rightarrow> (Agent \<Rightarrow> (pyexc + 'a) \<times> Agent) \<Rightarrow> nat list \<Rightarrow> pyexc option \<Rightarrow> Agent
     \<Rightarrow> (AIServiceError + 'a option) \<times> Agent" where
  "retry_loop cfg func [] last_error a =
     (case last_error of
        Some e \<Rightarrow> (Inl (handle_openai_error e), a)
      | None \<Rightarrow> (Inr None, a))"
| "retry_loop cfg func (attempt # rest) last_error a =
     (case func a of
        (Inr v, a') \<Rightarrow> (Inr (Some v), a')
      | (Inl e, a') \<Rightarrow>
          if transient e then
            (if int attempt < max_retries cfg - 1
             then retry_loop cfg func rest (Some e) (sleep (retry_delay cfg attempt) a')
             else (Inl (handle_openai_error e), a'))
          else (Inl (handle_openai_error e), a'))"

definition with_retry ::
  "retry_config \<Rightarrow> (Agent \<Rightarrow> (pyexc + 'a) \<times> Agent) \<Rightarrow> Agent
     \<Rightarrow> (AIServiceError + 'a option) \<times> Agent" where
  "with_retry cfg func a = retry_loop cfg func [0..<nat (max_retries cfg)] None a"

definition default_retry :: retry_config where
  "default_retry =
     \<lparr>max_retries = 3, base_delay = 1, max_delay = 10, exponential_backoff = True\<rparr>"

section \<open>agent.py: state and slots\<close>

record chat_message =
  msg_role :: pystr
  msg_content :: pystr

record ConversationState =
  session_id :: pystr
  messages :: "chat_message list"
  extracted_data :: pydict
  current_stage :: pystr
  missing_slots :: "string list"
  lead_qualification :: "pystr option"
  error :: "pystr option"

definition SLOTS :: "string list" where
  "SLOTS =
     [''car_brand'', ''car_model'', ''budget_min'', ''budget_max'', ''country'', ''timeline'',
      ''body_type'', ''name'', ''phone'']"

definition REQUIRED_FOR_QUALIFICATION :: "string list" where
  "REQUIRED_FOR_QUALIFICATION = [''car_brand'', ''budget_max'']"

definition REQUIRED_FOR_CLOSING :: "string list" where
  "REQUIRED_FOR_CLOSING = [''name'', ''phone'']"

text \<open>
  What the agent calls outside itself: the language model; \<open>json.loads\<close> (\<open>None\<close> when
  it raises); \<open>get_relevant_knowledge\<close> of the module \<open>knowledge_base\<close>, which is
  not among the sources and is therefore a parameter; and the loop over the tool calls
  that an answer requests (\<open>_execute_tool\<close>, which queries the catalogue, and the
  construction of each \<open>ToolMessage\<close>), of which only the exception it may raise
  matters here. The loop is given the number of invocations made so far and the names
  of the requested tools.
\<close>

record environment =
  llm :: llm_script
  json_loads :: "pystr \<Rightarrow> pyval option"
  get_relevant_knowledge :: "pystr \<Rightarrow> pyexc + pystr"
  tool_loop :: "nat \<Rightarrow> pystr list \<Rightarrow> pyexc option"

section \<open>agent.py: the slot extractor\<close>

text \<open>\<open>_call_llm\<close>: one invocation of the model under \<open>with_retry(max_retries=3, base_delay=1.0)\<close>.\<close>

definition call_llm :: "llm_script \<Rightarrow> Agent \<Rightarrow> (AIServiceError + pystr option) \<times> Agent" where
  "call_llm script a =
     with_retry default_retry
       (\<lambda>a. case ainvoke script a of
               (Inl e, a') \<Rightarrow> (Inl e, a')
             | (Inr response, a') \<Rightarrow> (Inr (content response), a')) a"

text \<open>
  \<open>response.strip()\<close>, then the two \<open>re.sub\<close> that drop a leading \<open>```json\<close> and a
  trailing \<open>```\<close> with the white space next to them.
\<close>

definition strip_fence :: "pystr \<Rightarrow> pystr" where
  "strip_fence response =
     (let s0 = strip response;
          s1 = (if take 7 s0 = ascii ''```json'' then dropWhile is_space (drop 7 s0) else s0)
      in if take 3 (rev s1) = ascii ''```'' then rev (dropWhile is_space (drop 3 (rev s1)))
         else s1)"

fun is_str :: "pyval \<Rightarrow> bool" where
  "is_str (PStr s) = True"
| "is_str _ = False"

text \<open>
  The loop \<open>for key, value in extracted.items()\<close>. It writes into the dictionary in
  place, so when \<open>_parse_budget\<close> raises, what was merged before stays merged: the loop
  returns the dictionary as it stands together with the exception, if any.
\<close>

fun merge_items :: "pydict \<Rightarrow> (string \<times> pyval) list \<Rightarrow> pydict \<times> pyexc option" where
  "merge_items data [] = (data, None)"
| "merge_items data ((key, v) # rest) =
     (if v \<noteq> PNone then
        (if key \<in> set [''budget_min'', ''budget_max''] \<and> is_str v then
           (case parse_budget v of
              Inl e \<Rightarrow> (data, Some e)
            | Inr v' \<Rightarrow> merge_items (AList.update key v' data) rest)
         else merge_items (AList.update key v data) rest)
      else merge_items data rest)"

text \<open>
  \<open>_extract_slots\<close>. The three \<open>except\<close> clauses: an \<open>AIServiceError\<close> sets \<open>error\<close>;
  a \<open>JSONDecodeError\<close> and any other exception (\<open>.strip()\<close> on \<open>None\<close>, \<open>.items()\<close> on a
  value that is not a dictionary, an exception of \<open>_parse_budget\<close>) are only logged.
\<close>

definition extract_slots ::
  "environment \<Rightarrow> ConversationState \<Rightarrow> Agent \<Rightarrow> ConversationState \<times> Agent" where
  "extract_slots env state a =
     (case call_llm (llm env) a of (r, a') \<Rightarrow>
        (let state' =
           (case r of
              Inl e \<Rightarrow> state\<lparr>error := Some (user_message e)\<rparr>
            | Inr None \<Rightarrow> state
            | Inr (Some response) \<Rightarrow>
                (case json_loads env (strip_fence response) of
                   None \<Rightarrow> state
                 | Some (PDict items) \<Rightarrow>
                     state\<lparr>extracted_data := fst (merge_items (extracted_data state) items)\<rparr>
                 | Some _ \<Rightarrow> state))
         in (state'\<lparr>missing_slots :=
                      filter (\<lambda>slot. dict_get (extracted_data state') slot = PNone) SLOTS\<rparr>,
             a')))"

section \<open>agent.py: the stage and qualification classifier\<close>

definition has_basic_info :: "pydict \<Rightarrow> bool" where
  "has_basic_info data =
     list_ex truthy
       [dict_get data ''car_brand'', dict_get data ''budget_max'', dict_get data ''body_type'']"

definition has_qualification_info :: "pydict \<Rightarrow> bool" where
  "has_qualification_info data =
     list_all truthy (map (dict_get data) REQUIRED_FOR_QUALIFICATION)"

definition has_contact_info :: "pydict \<Rightarrow> bool" where
  "has_contact_info data = list_all truthy (map (dict_get data) REQUIRED_FOR_CLOSING)"

text \<open>\<open>budget >= n\<close> for an \<open>int\<close> \<open>n\<close>: numbers compare, anything else raises \<open>TypeError\<close>.\<close>

fun py_ge :: "pyval \<Rightarrow> int \<Rightarrow> pyexc + bool" where
  "py_ge (PInt i) n = Inr (n \<le> i)"
| "py_ge (PBool b) n = Inr (n \<le> (if b then 1 else 0))"
| "py_ge (PFloat x) n = Inr (float_ge x n)"
| "py_ge v n =
     Inl (Exc TypeError
       (quoted (ascii ''>='') @ ascii '' not supported between instances of ''
        @ quoted (ascii (type_name v)) @ ascii '' and '' @ quoted (ascii ''int'')))"

text \<open>\<open>value.lower()\<close>: only a \<open>str\<close> has the method.\<close>

fun lower_method :: "pyval \<Rightarrow> pyexc + pystr" where
  "lower_method (PStr s) = Inr (py_lower s)"
| "lower_method v =
     Inl (Exc AttributeError
       (quoted (ascii (type_name v)) @ ascii '' object has no attribute ''
        @ quoted (ascii ''lower'')))"

text \<open>The urgency markers: (srochno) and (bystr).\<close>

definition marker_urgent :: pystr where
  "marker_urgent = [1089, 1088, 1086, 1095, 1085, 1086]"

definition marker_fast :: pystr where
  "marker_fast = [1073, 1099, 1089, 1090, 1088]"

text \<open>The block under \<open>if has_contact_info and has_qualification_info\<close>.\<close>

definition qualify :: "pydict \<Rightarrow> pyexc + pystr" where
  "qualify data =
     (let budget = dict_get_default data ''budget_max'' (PInt 0)
      in case lower_method (dict_get_default data ''timeline'' (PStr [])) of
           Inl e \<Rightarrow> Inl e
         | Inr timeline \<Rightarrow>
             (case py_ge budget 3000000 of
                Inl e \<Rightarrow> Inl e
              | Inr high \<Rightarrow>
                  if high \<or> contains marker_urgent timeline \<or> contains marker_fast timeline
                  then Inr (ascii ''hot'')
                  else
                    (case py_ge budget 1500000 of
                       Inl e \<Rightarrow> Inl e
                     | Inr mid \<Rightarrow>
                         if mid \<or> has_basic_info data then Inr (ascii ''warm'')
                         else Inr (ascii ''cold''))))"

text \<open>The \<open>if\<close>/\<open>elif\<close> chain that sets \<open>current_stage\<close>.\<close>

definition stage_of :: "pydict \<Rightarrow> pystr" where
  "stage_of data =
     (if \<not> has_basic_info data then ascii ''discovery''
      else if \<not> has_qualification_info data then ascii ''qualification''
      else if \<not> has_contact_info data then ascii ''closing''
      else ascii ''completed'')"

text \<open>\<open>_determine_stage\<close>: \<open>Inl\<close> the exception when the qualification block raises.\<close>

definition determine_stage :: "ConversationState \<Rightarrow> pyexc + ConversationState" where
  "determine_stage state =
     (let data = extracted_data state
      in case (if has_contact_info data \<and> has_qualification_info data
               then (case qualify data of
                       Inl e \<Rightarrow> Inl e
                     | Inr tier \<Rightarrow> Inr (state\<lparr>lead_qualification := Some tier\<rparr>))
               else Inr state) of
           Inl e \<Rightarrow> Inl e
         | Inr state' \<Rightarrow> Inr (state'\<lparr>current_stage := stage_of data\<rparr>))"

section \<open>agent.py: the response generator\<close>

definition assistant_says :: "pystr \<Rightarrow> ConversationState \<Rightarrow> ConversationState" where
  "assistant_says txt state =
     state\<lparr>messages := messages state @ [\<lparr>msg_role = ascii ''assistant'', msg_content = txt\<rparr>]\<rparr>"

text \<open>
  The \<open>try\<close> body up to \<open>response_content\<close>: one invocation and, when it asks for
  tools, the loop over the tool calls and a second invocation. The texts that the tools
  return only reach the second invocation's prompt; an exception of the loop leaves the
  \<open>try\<close> body after one invocation.
\<close>

definition generate :: "environment \<Rightarrow> Agent \<Rightarrow> (pyexc + pystr) \<times> Agent" where
  "generate env a =
     (case ainvoke (llm env) a of
        (Inl e, a1) \<Rightarrow> (Inl e, a1)
      | (Inr response, a1) \<Rightarrow>
          if tool_calls response \<noteq> [] then
            (case tool_loop env (llm_calls a1) (tool_calls response) of
               Some e \<Rightarrow> (Inl e, a1)
             | None \<Rightarrow>
                 (case ainvoke (llm env) a1 of
                    (Inl e, a2) \<Rightarrow> (Inl e, a2)
                  | (Inr final_response, a2) \<Rightarrow> (Inr (content final_response), a2)))
          else (Inr (content response), a1))"

text \<open>
  \<open>_generate_response\<close>. \<open>get_relevant_knowledge\<close> is called before the \<open>try\<close>, so what
  it raises leaves the node; \<open>now\<close> is the clock read by \<open>record_error\<close>.
\<close>

definition generate_response ::
  "environment \<Rightarrow> pyfloat \<Rightarrow> ConversationState \<Rightarrow> Agent
     \<Rightarrow> (pyexc + ConversationState) \<times> Agent" where
  "generate_response env now state a =
     (if should_use_fallback (error_context a)
      then (Inr (assistant_says (get_fallback_response ''general'') state), a)
      else
        let last_message =
              (if messages state \<noteq> [] then msg_content (last (messages state)) else [])
        in case get_relevant_knowledge env last_message of
             Inl e \<Rightarrow> (Inl e, a)
           | Inr knowledge \<Rightarrow>
               (case generate env a of
                  (Inr response_content, a') \<Rightarrow>
                    (Inr (assistant_says response_content state),
                     a'\<lparr>error_context := record_success (error_context a')\<rparr>)
                | (Inl (ServiceError e), a') \<Rightarrow>
                    (Inr ((assistant_says (user_message e) state)\<lparr>error := Some (user_message e)\<rparr>),
                     a'\<lparr>error_context := record_error now (error_context a')\<rparr>)
                | (Inl e, a') \<Rightarrow>
                    (Inr ((assistant_says (get_fallback_response ''general'') state)
                            \<lparr>error := Some (exc_str e)\<rparr>),
                     a'\<lparr>error_context := record_error now (error_context a')\<rparr>)))"

section \<open>agent.py: the turn coordinator\<close>

text \<open>
  \<open>_save_to_db\<close> catches every exception and returns the state as it got it; the
  database is outside this development.
\<close>

definition save_to_db :: "ConversationState \<Rightarrow> ConversationState" where
  "save_to_db state = state"

text \<open>
  The compiled graph: \<open>extract_slots\<close>, \<open>determine_stage\<close>, \<open>generate_response\<close>,
  \<open>save_to_db\<close>, in this order. The nodes work on the very objects that
  \<open>initial_state\<close> holds, and \<open>_extract_slots\<close> writes into the slot dictionary in
  place; so when a node raises, the exception comes with the state as the nodes before
  it left it.
\<close>

definition run_graph ::
  "environment \<Rightarrow> pyfloat \<Rightarrow> ConversationState \<Rightarrow> Agent
     \<Rightarrow> ((pyexc \<times> ConversationState) + ConversationState) \<times> Agent" where
  "run_graph env now state a =
     (case extract_slots env state a of (s1, a1) \<Rightarrow>
        (case determine_stage s1 of
           Inl e \<Rightarrow> (Inl (e, s1), a1)
         | Inr s2 \<Rightarrow>
             (case generate_response env now s2 a1 of
                (Inl e, a2) \<Rightarrow> (Inl (e, s2), a2)
              | (Inr s3, a2) \<Rightarrow> (Inr (save_to_db s3), a2))))"

text \<open>The row of the table \<open>leads\<close> that \<open>process_message\<close> reads: nullable columns.\<close>

record Lead =
  lead_name :: "pystr option"
  lead_phone :: "pystr option"
  lead_car_brand :: "pystr option"
  lead_car_model :: "pystr option"
  lead_budget_min :: "int option"
  lead_budget_max :: "int option"
  lead_country :: "pystr option"
  lead_timeline :: "pystr option"
  lead_body_type :: "pystr option"

definition opt_str :: "pystr option \<Rightarrow> pyval" where
  "opt_str x = (case x of None \<Rightarrow> PNone | Some s \<Rightarrow> PStr s)"

definition opt_int :: "int option \<Rightarrow> pyval" where
  "opt_int x = (case x of None \<Rightarrow> PNone | Some i \<Rightarrow> PInt i)"

text \<open>The dictionary built from the columns of the row, then the one without its \<open>None\<close> values.\<close>

definition lead_row :: "Lead \<Rightarrow> pydict" where
  "lead_row lead =
     [(''name'', opt_str (lead_name lead)),
      (''phone'', opt_str (lead_phone lead)),
      (''car_brand'', opt_str (lead_car_brand lead)),
      (''car_model'', opt_str (lead_car_model lead)),
      (''budget_min'', opt_int (lead_budget_min lead)),
      (''budget_max'', opt_int (lead_budget_max lead)),
      (''country'', opt_str (lead_country lead)),
      (''timeline'', opt_str (lead_timeline lead)),
      (''body_type'', opt_str (lead_body_type lead))]"

definition lead_slots :: "Lead \<Rightarrow> pydict" where
  "lead_slots lead = filter (\<lambda>(k, v). v \<noteq> PNone) (lead_row lead)"

text \<open>
  One call of \<open>process_message\<close>: its arguments, and what the turn reads from outside:
  \<open>str(uuid.uuid4())\<close>, the outcome of loading the session's lead (an exception
  before a row is read, no row, or a row) and the clock.
\<close>

record turn_input =
  in_message :: pystr
  in_history :: "chat_message list"
  in_session_id :: "pystr option"
  uuid4 :: pystr
  stored_lead :: "pyexc + Lead option"
  clock :: pyfloat

definition prompt_for_input :: pystr where
  "prompt_for_input =
     [1055, 1086, 1078, 1072, 1083, 1091, 1081, 1089, 1090, 1072, 44, 32, 1085, 1072, 1087,
      1080, 1096, 1080, 1090, 1077, 32, 1074, 1072, 1096, 32, 1074, 1086, 1087, 1088, 1086,
      1089, 46]"

definition initial_state :: "pystr \<Rightarrow> chat_message list \<Rightarrow> pystr \<Rightarrow> pydict \<Rightarrow> ConversationState" where
  "initial_state sid history msg data =
     \<lparr>session_id = sid,
      messages = history @ [\<lparr>msg_role = ascii ''user'', msg_content = msg\<rparr>],
      extracted_data = data,
      current_stage = ascii ''discovery'',
      missing_slots = SLOTS,
      lead_qualification = None,
      error = None\<rparr>"

text \<open>
  The first lines of \<open>process_message\<close>: the session identifier (a fresh one when
  none, or an empty one, is given), the test for an empty message, the truncation of
  a long one, and the slots seeded from the stored lead (none when the query raises or
  finds no row).
\<close>

definition ensure_session_id :: "turn_input \<Rightarrow> pystr" where
  "ensure_session_id inp =
     (case in_session_id inp of
        None \<Rightarrow> take 8 (uuid4 inp)
      | Some s \<Rightarrow> if s = [] then take 8 (uuid4 inp) else s)"

definition blank :: "pystr \<Rightarrow> bool" where
  "blank msg = (msg = [] \<or> strip msg = [])"

definition truncated :: "pystr \<Rightarrow> pystr" where
  "truncated msg = (if 2000 < length msg then take 2000 msg @ ascii ''...'' else msg)"

definition seed_slots :: "turn_input \<Rightarrow> pydict" where
  "seed_slots inp =
     (case stored_lead inp of
        Inr (Some lead) \<Rightarrow> lead_slots lead
      | _ \<Rightarrow> [])"

definition turn_state :: "turn_input \<Rightarrow> ConversationState" where
  "turn_state inp =
     initial_state (ensure_session_id inp) (in_history inp) (truncated (in_message inp))
       (seed_slots inp)"

text \<open>
  \<open>process_message\<close>. The value returned is a \<open>dict\<close>; the exception handlers return the
  local \<open>extracted_data\<close>, which is the dictionary object the graph worked on.
\<close>

definition process_message :: "environment \<Rightarrow> turn_input \<Rightarrow> Agent \<Rightarrow> pydict \<times> Agent" where
  "process_message env inp a =
     (if blank (in_message inp) then
        ([(''response'', PStr prompt_for_input),
          (''session_id'', PStr (ensure_session_id inp)),
          (''extracted_data'', PDict []),
          (''lead_status'', PStr (ascii ''discovery'')),
          (''qualification'', PNone)], a)
      else
        case run_graph env (clock inp) (turn_state inp) a of
          (Inr final_state, a') \<Rightarrow>
            (if messages final_state \<noteq> [] then
               [(''response'', PStr (msg_content (last (messages final_state)))),
                (''session_id'', PStr (ensure_session_id inp)),
                (''extracted_data'', PDict (extracted_data final_state)),
                (''lead_status'', PStr (current_stage final_state)),
                (''qualification'', opt_str (lead_qualification final_state)),
                (''error'', opt_str (error final_state))]
             else
               [(''response'', PStr (get_fallback_response ''general'')),
                (''session_id'', PStr (ensure_session_id inp)),
                (''extracted_data'', PDict (extracted_data final_state)),
                (''lead_status'', PStr (ascii ''error'')),
                (''qualification'', PNone),
                (''error'', PStr (ascii ''list index out of range''))], a')
        | (Inl (ServiceError e, failed), a') \<Rightarrow>
            ([(''response'', PStr (user_message e)),
              (''session_id'', PStr (ensure_session_id inp)),
              (''extracted_data'', PDict (extracted_data failed)),
              (''lead_status'', PStr (ascii ''error'')),
              (''qualification'', PNone),
              (''error'', PStr (user_message e))], a')
        | (Inl (e, failed), a') \<Rightarrow>
            ([(''response'', PStr (get_fallback_response ''general'')),
              (''session_id'', PStr (ensure_session_id inp)),
              (''extracted_data'', PDict (extracted_data failed)),
              (''lead_status'', PStr (ascii ''error'')),
              (''qualification'', PNone),
              (''error'', PStr (exc_str e))], a'))"

text \<open>A conversation: the turns one after the other on the same agent instance.\<close>

fun run_turns :: "environment \<Rightarrow> turn_input list \<Rightarrow> Agent \<Rightarrow> pydict list \<times> Agent" where
  "run_turns env [] a = ([], a)"
| "run_turns env (inp # inps) a =
     (case process_message env inp a of (out, a') \<Rightarrow>
        (case run_turns env inps a' of (outs, a'') \<Rightarrow> (out # outs, a'')))"

section \<open>The specification's reading of the stage rule\<close>

text \<open>
  The stage rule as the specification words it, a slot being present when the mapping
  holds a non-null value for it. It is compared with \<open>determine_stage\<close> below.
\<close>

definition present :: "pydict \<Rightarrow> string \<Rightarrow> bool" where
  "present data slot = (dict_get data slot \<noteq> PNone)"

definition claimed_stage :: "pydict \<Rightarrow> pystr" where
  "claimed_stage data =
     (let basic = (present data ''car_brand'' \<or> present data ''budget_max''
                   \<or> present data ''body_type'');
          qualification = (present data ''car_brand'' \<and> present data ''budget_max'');
          contact = (present data ''name'' \<and> present data ''phone'')
      in if \<not> basic then ascii ''discovery''
         else if \<not> qualification then ascii ''qualification''
         else if \<not> contact then ascii ''closing''
         else ascii ''completed'')"

section \<open>Notions used to state the qualification rule\<close>

text \<open>
  The qualification block compares \<open>budget_max\<close> with the thresholds and lower-cases
  \<open>timeline\<close>; both raise on a value of another type. The rule is stated for the mappings
  where \<open>budget_max\<close> is a number and \<open>timeline\<close> is absent or a text.
\<close>

fun is_number :: "pyval \<Rightarrow> bool" where
  "is_number (PInt i) = True"
| "is_number (PBool b) = True"
| "is_number (PFloat x) = True"
| "is_number _ = False"

definition num_ge :: "pyval \<Rightarrow> int \<Rightarrow> bool" where
  "num_ge v n = (py_ge v n = Inr True)"

definition timeline_ok :: "pydict \<Rightarrow> bool" where
  "timeline_ok data = (case map_of data ''timeline'' of None \<Rightarrow> True | Some v \<Rightarrow> is_str v)"

definition timeline_text :: "pydict \<Rightarrow> pystr" where
  "timeline_text data = (case map_of data ''timeline'' of Some (PStr s) \<Rightarrow> s | _ \<Rightarrow> [])"

definition urgent :: "pydict \<Rightarrow> bool" where
  "urgent data =
     (contains marker_urgent (py_lower (timeline_text data))
      \<or> contains marker_fast (py_lower (timeline_text data)))"

section \<open>Notions used to state the retry semantics\<close>

text \<open>
  The \<open>k\<close> invocations of the model from the \<open>c\<close>-th on all raise a transient failure
  (rate limit, connection, timeout).
\<close>

definition failing_transiently :: "llm_script \<Rightarrow> nat \<Rightarrow> nat \<Rightarrow> bool" where
  "failing_transiently script c k =
     list_all (\<lambda>i. case script (c + i) of Inl e \<Rightarrow> transient e | Inr r \<Rightarrow> False) [0..<k]"

section \<open>Notions used to state the turn outcome\<close>

text \<open>The kinds of value the fields \<open>qualification\<close> and \<open>error\<close> of the outcome hold.\<close>

fun str_or_none :: "pyval \<Rightarrow> bool" where
  "str_or_none (PStr s) = True"
| "str_or_none PNone = True"
| "str_or_none _ = False"

text \<open>
  The knowledge lookup of the generator's node is made on the last message, which in a
  turn is the truncated message of the user; \<open>knowledge_found\<close> says that it returns.
\<close>

definition knowledge_found :: "environment \<Rightarrow> turn_input \<Rightarrow> bool" where
  "knowledge_found env inp =
     (case get_relevant_knowledge env (truncated (in_message inp)) of
        Inr k \<Rightarrow> True
      | Inl e \<Rightarrow> False)"

text \<open>
  What the \<open>except\<close> clauses of \<open>_generate_response\<close> write into \<open>error\<close> when the
  generation started on the agent \<open>a\<close> fails: \<open>e.user_message\<close> for an \<open>AIServiceError\<close>,
  \<open>str(e)\<close> for any other exception; \<open>None\<close> when it answers or when the agent is in
  fallback mode, where the model is not invoked.
\<close>

definition generator_error :: "environment \<Rightarrow> Agent \<Rightarrow> pystr option" where
  "generator_error env a =
     (if should_use_fallback (error_context a) then None
      else case fst (generate env a) of
             Inr r \<Rightarrow> None
           | Inl (ServiceError e) \<Rightarrow> Some (user_message e)
           | Inl (Exc c m) \<Rightarrow> Some m)"

text \<open>The first-match rule of the stages, written out on the truth values of the slots.\<close>

definition first_match :: "pydict \<Rightarrow> pystr" where
  "first_match data =
     (if \<not> (truthy (dict_get data ''car_brand'') \<or> truthy (dict_get data ''budget_max'')
             \<or> truthy (dict_get data ''body_type''))
      then ascii ''discovery''
      else if \<not> (truthy (dict_get data ''car_brand'') \<and> truthy (dict_get data ''budget_max''))
      then ascii ''qualification''
      else if \<not> (truthy (dict_get data ''name'') \<and> truthy (dict_get data ''phone''))
      then ascii ''closing''
      else ascii ''completed'')"

section \<open>Sample inputs\<close>

text \<open>A state as the tests of the classifier build it, around a slot mapping.\<close>

definition state_with :: "pydict \<Rightarrow> ConversationState" where
  "state_with data = initial_state (ascii ''test'') [] (ascii ''hi'') data"

text \<open>The slot mappings of the classifier's tests, and one with a number as timeline.\<close>

definition ready_slots :: "int \<Rightarrow> pydict" where
  "ready_slots budget =
     [(''car_brand'', PStr (ascii ''X'')), (''budget_max'', PInt budget),
      (''name'', PStr (ascii ''Y'')), (''phone'', PStr (ascii ''Z''))]"

definition urgent_slots :: pydict where
  "urgent_slots =
     ready_slots 2000000
     @ [(''timeline'', PStr [1057, 1088, 1086, 1095, 1085, 1086, 32, 1085, 1091, 1078, 1085, 1072])]"

definition numbered_timeline_slots :: pydict where
  "numbered_timeline_slots = ready_slots 2000000 @ [(''timeline'', PInt 3)]"

text \<open>
  Scripts for the language model (one that always answers with the same text, one that
  always raises the same exception), an environment around a script in which
  \<open>json.loads\<close> reads every answer as \<open>parsed\<close>, the knowledge lookup returns the
  empty text and the tools do not raise, and the agent as \<open>__init__\<close> leaves it.
\<close>

definition reply :: "pystr \<Rightarrow> llm_response" where
  "reply txt = \<lparr>content = txt, tool_calls = []\<rparr>"

definition answering :: "pystr \<Rightarrow> llm_script" where
  "answering txt n = Inr (reply txt)"

definition raising :: "pyexc \<Rightarrow> llm_script" where
  "raising e n = Inl e"

definition sample_env :: "llm_script \<Rightarrow> pyval option \<Rightarrow> environment" where
  "sample_env script parsed =
     \<lparr>llm = script, json_loads = (\<lambda>s. parsed), get_relevant_knowledge = (\<lambda>q. Inr []),
      tool_loop = (\<lambda>n calls. None)\<rparr>"

definition fresh_agent :: Agent where
  "fresh_agent = \<lparr>error_context = new_ErrorContext, llm_calls = 0, slept = []\<rparr>"

text \<open>A budget in words without a digit: (ne znayu), "I do not know".\<close>

definition undecided :: pystr where
  "undecided = [1085, 1077, 32, 1079, 1085, 1072, 1102]"

text \<open>A model that is rate-limited, then times out, then answers.\<close>

definition flaky :: llm_script where
  "flaky n =
     (if n = 0 then Inl (Exc RateLimitError (ascii ''rate limit''))
      else if n = 1 then Inl (Exc APITimeoutError (ascii ''Request timed out.''))
      else Inr (reply (ascii ''ok'')))"

text \<open>
  A turn with the message \<open>msg\<close>, no history, the session \<open>s1\<close> and no stored lead.
\<close>

definition sample_turn :: "pystr \<Rightarrow> turn_input" where
  "sample_turn msg =
     \<lparr>in_message = msg, in_history = [], in_session_id = Some (ascii ''s1''),
      uuid4 = ascii ''0f8fad5b-d9cb-469f-a165-70867728950e'',
      stored_lead = Inr None, clock = Finite 0 0\<rparr>"

text \<open>
  The agent after three failed generations in a row, and an answer of the oracle that
  gives the timeline as a number: brand X, budget 2000000, name Y, phone Z, timeline 3.
\<close>

definition stuck_agent :: Agent where
  "stuck_agent =
     \<lparr>error_context = \<lparr>error_count = 3, last_error_time = Some (Finite 0 0), consecutive_errors = 3\<rparr>,
      llm_calls = 3, slept = []\<rparr>"

definition timeline_reply :: pystr where
  "timeline_reply = [123, 34, 99, 97, 114, 95, 98, 114, 97, 110, 100, 34, 58, 32, 34, 88, 34, 44, 32, 34, 98, 117, 100, 103, 101, 116, 95, 109, 97, 120, 34, 58, 32, 50, 48, 48, 48, 48, 48, 48, 44, 32, 34, 110, 97, 109, 101, 34, 58, 32, 34, 89, 34, 44, 32, 34, 112, 104, 111, 110, 101, 34, 58, 32, 34, 90, 34, 44, 32, 34, 116, 105, 109, 101, 108, 105, 110, 101, 34, 58, 32, 51, 125]"

text \<open>
  A stored lead with a brand and a budget, the turn \<open>hi\<close> of its session, and a model that
  is rate-limited at its first three invocations and answers from the fourth on.
\<close>

definition known_lead :: Lead where
  "known_lead =
     \<lparr>lead_name = None, lead_phone = None, lead_car_brand = Some (ascii ''Toyota''),
      lead_car_model = None, lead_budget_min = None, lead_budget_max = Some 2000000,
      lead_country = None, lead_timeline = None, lead_body_type = None\<rparr>"

definition returning_turn :: turn_input where
  "returning_turn = (sample_turn (ascii ''hi''))\<lparr>stored_lead := Inr (Some known_lead)\<rparr>"

definition recovering :: llm_script where
  "recovering n =
     (if n < 3 then Inl (Exc RateLimitError (ascii ''rl'')) else Inr (reply (ascii ''ok'')))"

section \<open>The three predicates of the classifier\<close>

lemma has_basic_info_iff:
  "has_basic_info d \<longleftrightarrow>
     truthy (dict_get d ''car_brand'') \<or> truthy (dict_get d ''budget_max'')
     \<or> truthy (dict_get d ''body_type'')"
  by (simp add: has_basic_info_def)

lemma has_qualification_info_iff:
  "has_qualification_info d \<longleftrightarrow>
     truthy (dict_get d ''car_brand'') \<and> truthy (dict_get d ''budget_max'')"
  by (simp add: has_qualification_info_def REQUIRED_FOR_QUALIFICATION_def)

lemma has_contact_info_iff:
  "has_contact_info d \<longleftrightarrow> truthy (dict_get d ''name'') \<and> truthy (dict_get d ''phone'')"
  by (simp add: has_contact_info_def REQUIRED_FOR_CLOSING_def)

lemmas classifier_defs =
  determine_stage_def stage_of_def qualify_def has_basic_info_def has_qualification_info_def
  has_contact_info_def REQUIRED_FOR_QUALIFICATION_def REQUIRED_FOR_CLOSING_def
  dict_get_def dict_get_default_def state_with_def initial_state_def ascii_def

section \<open>The qualification block on well-typed slots\<close>

lemma py_ge_number: "is_number v \<Longrightarrow> py_ge v n = Inr (num_ge v n)"
  by (cases v) (auto simp: num_ge_def)

lemma lower_timeline:
  "timeline_ok d \<Longrightarrow>
     lower_method (dict_get_default d ''timeline'' (PStr [])) = Inr (py_lower (timeline_text d))"
  by (auto simp: timeline_ok_def dict_get_default_def timeline_text_def py_lower_def
      split: option.splits pyval.splits elim: is_str.elims)

lemma budget_default:
  "has_qualification_info d \<Longrightarrow>
     dict_get_default d ''budget_max'' (PInt 0) = dict_get d ''budget_max''"
  by (auto simp: has_qualification_info_iff dict_get_default_def dict_get_def
      split: option.splits)

lemma qualify_typed:
  assumes "has_qualification_info d" "is_number (dict_get d ''budget_max'')" "timeline_ok d"
  shows "qualify d =
     Inr (if num_ge (dict_get d ''budget_max'') 3000000 \<or> urgent d then ascii ''hot''
          else if num_ge (dict_get d ''budget_max'') 1500000 \<or> has_basic_info d
          then ascii ''warm''
          else ascii ''cold'')"
  using assms
  by (simp add: qualify_def budget_default lower_timeline py_ge_number urgent_def)

lemma qualify_not_cold:
  assumes "has_qualification_info d"
  shows "qualify d \<noteq> Inr (ascii ''cold'')"
proof -
  from assms have "has_basic_info d"
    by (simp add: has_basic_info_iff has_qualification_info_iff)
  then show ?thesis
    by (auto simp: qualify_def Let_def ascii_def split: sum.splits)
qed

lemmas sample_defs =
  ready_slots_def urgent_slots_def numbered_timeline_slots_def timeline_ok_def
  timeline_text_def urgent_def num_ge_def py_lower_def lower_cp_def marker_urgent_def
  marker_fast_def quoted_def

section \<open>The retry loop\<close>

lemma transient_failure_iff:
  "(case r of Inl e \<Rightarrow> transient e | Inr v \<Rightarrow> False) \<longleftrightarrow> (\<exists>e. r = Inl e \<and> transient e)"
  by (cases r) auto

lemma failing_transiently_iff:
  "failing_transiently script c k \<longleftrightarrow> (\<forall>i<k. \<exists>e. script (c + i) = Inl e \<and> transient e)"
  by (auto simp: failing_transiently_def list_all_iff transient_failure_iff)

lemma retry_loop_skip:
  assumes "j + k < nat (max_retries cfg)"
    and "failing_transiently script (llm_calls a) k"
  shows "\<exists>last'. retry_loop cfg (ainvoke script) [j..<nat (max_retries cfg)] prev a =
     retry_loop cfg (ainvoke script) [j + k..<nat (max_retries cfg)] last'
       (a\<lparr>llm_calls := llm_calls a + k,
          slept := slept a @ map (retry_delay cfg) [j..<j + k]\<rparr>)"
  using assms
proof (induction k arbitrary: j a prev)
  case 0
  then show ?case by (intro exI [of _ prev]) simp
next
  case (Suc k)
  from Suc.prems(2) obtain e where e: "script (llm_calls a) = Inl e" "transient e"
    by (auto simp: failing_transiently_iff)
  let ?a = "sleep (retry_delay cfg j) (a\<lparr>llm_calls := Suc (llm_calls a)\<rparr>)"
  have more: "failing_transiently script (llm_calls ?a) k"
    using Suc.prems(2) by (auto simp: failing_transiently_iff sleep_def)
  have j: "j < nat (max_retries cfg)" "int j < max_retries cfg - 1"
    using Suc.prems(1) by auto
  have step: "retry_loop cfg (ainvoke script) [j..<nat (max_retries cfg)] prev a =
      retry_loop cfg (ainvoke script) [Suc j..<nat (max_retries cfg)] (Some e) ?a"
    using e j by (simp add: upt_conv_Cons ainvoke_def)
  have upt: "[j..<j + Suc k] = j # [Suc j..<Suc j + k]"
    by (simp add: upt_conv_Cons)
  have agent: "?a\<lparr>llm_calls := llm_calls ?a + k,
          slept := slept ?a @ map (retry_delay cfg) [Suc j..<Suc j + k]\<rparr>
      = a\<lparr>llm_calls := llm_calls a + Suc k,
          slept := slept a @ map (retry_delay cfg) [j..<j + Suc k]\<rparr>"
    unfolding upt by (simp add: sleep_def)
  from Suc.IH [of "Suc j" ?a "Some e"] Suc.prems(1) more
  obtain last' where "retry_loop cfg (ainvoke script) [Suc j..<nat (max_retries cfg)] (Some e) ?a =
     retry_loop cfg (ainvoke script) [Suc j + k..<nat (max_retries cfg)] last'
       (?a\<lparr>llm_calls := llm_calls ?a + k,
          slept := slept ?a @ map (retry_delay cfg) [Suc j..<Suc j + k]\<rparr>)"
    by auto
  with step have "retry_loop cfg (ainvoke script) [j..<nat (max_retries cfg)] prev a =
     retry_loop cfg (ainvoke script) [j + Suc k..<nat (max_retries cfg)] last'
       (a\<lparr>llm_calls := llm_calls a + Suc k,
          slept := slept a @ map (retry_delay cfg) [j..<j + Suc k]\<rparr>)"
    unfolding agent by simp
  then show ?case by blast
qed

lemma agent_update_order:
  "a\<lparr>slept := s, llm_calls := n\<rparr> = a\<lparr>llm_calls := n, slept := s\<rparr>"
  by (cases a) simp

lemma with_retry_settles:
  assumes "k < nat (max_retries cfg)"
    and "failing_transiently script (llm_calls a) k"
    and "script (llm_calls a + k) = r"
    and "case r of Inr v \<Rightarrow> True | Inl e \<Rightarrow> \<not> (transient e \<and> int k < max_retries cfg - 1)"
  shows "with_retry cfg (ainvoke script) a =
     ((case r of Inr v \<Rightarrow> Inr (Some v) | Inl e \<Rightarrow> Inl (handle_openai_error e)),
      a\<lparr>llm_calls := llm_calls a + k + 1,
        slept := slept a @ map (retry_delay cfg) [0..<k]\<rparr>)"
proof -
  from retry_loop_skip [of 0 k cfg script a None] assms(1,2)
  obtain last' where "with_retry cfg (ainvoke script) a =
      retry_loop cfg (ainvoke script) [k..<nat (max_retries cfg)] last'
       (a\<lparr>llm_calls := llm_calls a + k, slept := slept a @ map (retry_delay cfg) [0..<k]\<rparr>)"
    by (auto simp: with_retry_def)
  moreover have "[k..<nat (max_retries cfg)] = k # [Suc k..<nat (max_retries cfg)]"
    using assms(1) by (simp add: upt_conv_Cons)
  ultimately show ?thesis
    using assms(3,4)
    by (cases r) (auto simp: ainvoke_def agent_update_order)
qed

lemma transient_iff:
  "transient (Exc c m) \<longleftrightarrow> c = RateLimitError \<or> c = APIConnectionError \<or> c = APITimeoutError"
  "\<not> transient (ServiceError se)"
  by (cases c; simp add: transient_def)+

lemma recoverable_handle:
  "recoverable (handle_openai_error e) \<longleftrightarrow> \<not> isinstance e AuthenticationError"
proof (cases e)
  case (Exc c m)
  then show ?thesis
    by (cases c)
       (simp_all add: handle_openai_error_def RateLimitExceeded_def AIConnectionError_def
          AITimeoutError_def AIAuthError_def)
next
  case (ServiceError se)
  then show ?thesis by (simp add: handle_openai_error_def)
qed

lemma not_transient_auth: "isinstance e AuthenticationError \<Longrightarrow> \<not> transient e"
  by (cases e) (auto simp: transient_iff)

section \<open>The extractor, the classifier and the seeded slots\<close>

lemma retry_loop_error_context:
  assumes "\<And>a. error_context (snd (func a)) = error_context a"
  shows "error_context (snd (retry_loop cfg func attempts prev a)) = error_context a"
proof (induction attempts arbitrary: prev a)
  case Nil
  then show ?case by (simp split: option.splits)
next
  case (Cons attempt rest)
  obtain r a1 where f: "func a = (r, a1)" by (cases "func a")
  with assms [of a] have a1: "error_context a1 = error_context a" by simp
  show ?case
  proof (cases r)
    case (Inl e)
    with f a1 Cons.IH [of "Some e" "sleep (retry_delay cfg attempt) a1"] show ?thesis
      by (simp add: sleep_def)
  next
    case (Inr v)
    with f a1 show ?thesis by simp
  qed
qed

lemma call_llm_error_context: "error_context (snd (call_llm script a)) = error_context a"
  unfolding call_llm_def with_retry_def
  by (rule retry_loop_error_context) (simp add: ainvoke_def split: sum.splits)

lemma extract_slots_agent: "snd (extract_slots env state a) = snd (call_llm (llm env) a)"
  by (simp add: extract_slots_def Let_def split: prod.splits)

lemma extract_slots_error_context:
  "error_context (snd (extract_slots env state a)) = error_context a"
  by (simp add: extract_slots_agent call_llm_error_context)

lemma extract_slots_failed_call:
  assumes "call_llm (llm env) a = (Inl e, a')"
  shows "extract_slots env state a =
     (state\<lparr>error := Some (user_message e),
            missing_slots := filter (\<lambda>slot. dict_get (extracted_data state) slot = PNone) SLOTS\<rparr>,
      a')"
  using assms by (simp add: extract_slots_def)

lemma extract_slots_malformed:
  assumes "call_llm (llm env) a = (Inr (Some response), a')"
    and "json_loads env (strip_fence response) = None"
  shows "extract_slots env state a =
     (state\<lparr>missing_slots := filter (\<lambda>slot. dict_get (extracted_data state) slot = PNone) SLOTS\<rparr>,
      a')"
  using assms by (simp add: extract_slots_def)

lemma determine_stage_data:
  "determine_stage state = Inr state' \<Longrightarrow>
     extracted_data state' = extracted_data state \<and> error state' = error state
     \<and> current_stage state' = stage_of (extracted_data state)"
  by (auto simp: determine_stage_def Let_def split: if_splits sum.splits)

lemma determine_stage_raises:
  "determine_stage state = Inl x \<Longrightarrow> qualify (extracted_data state) = Inl x"
  by (auto simp: determine_stage_def Let_def split: if_splits sum.splits)

lemma map_of_filter_values:
  "distinct (map fst xs) \<Longrightarrow>
     map_of (filter (\<lambda>(k, v). P v) xs) k =
       (case map_of xs k of None \<Rightarrow> None | Some v \<Rightarrow> if P v then Some v else None)"
proof (induction xs)
  case Nil
  then show ?case by simp
next
  case (Cons x xs)
  obtain k' v' where x: "x = (k', v')" by (cases x)
  from Cons.prems x have "map_of xs k' = None"
    by (simp add: map_of_eq_None_iff)
  with Cons x show ?case by (auto split: option.splits)
qed

lemma lead_row_distinct: "distinct (map fst (lead_row lead))"
  by (simp add: lead_row_def)

lemma lead_row_timeline:
  "map_of (lead_row lead) ''timeline'' = Some (opt_str (lead_timeline lead))"
  by (simp add: lead_row_def)

lemma lead_row_budget_max:
  "map_of (lead_row lead) ''budget_max'' = Some (opt_int (lead_budget_max lead))"
  by (simp add: lead_row_def)

lemma lead_slots_timeline:
  "map_of (lead_slots lead) ''timeline'' = map_option PStr (lead_timeline lead)"
  unfolding lead_slots_def
  by (cases "lead_timeline lead")
     (simp_all add: map_of_filter_values [OF lead_row_distinct] lead_row_timeline opt_str_def)

lemma lead_slots_budget_max:
  "map_of (lead_slots lead) ''budget_max'' = map_option PInt (lead_budget_max lead)"
  unfolding lead_slots_def
  by (cases "lead_budget_max lead")
     (simp_all add: map_of_filter_values [OF lead_row_distinct] lead_row_budget_max opt_int_def)

lemma seed_slots_cases:
  "seed_slots inp = [] \<or> (\<exists>lead. seed_slots inp = lead_slots lead)"
  by (cases "stored_lead inp") (auto simp: seed_slots_def split: option.splits)

lemma seed_slots_typed:
  "timeline_ok (seed_slots inp)"
  "is_number (dict_get_default (seed_slots inp) ''budget_max'' (PInt 0))"
proof -
  from seed_slots_cases [of inp] show "timeline_ok (seed_slots inp)"
  proof
    assume "seed_slots inp = []"
    then show ?thesis by (simp add: timeline_ok_def)
  next
    assume "\<exists>lead. seed_slots inp = lead_slots lead"
    then obtain lead where "seed_slots inp = lead_slots lead" ..
    then show ?thesis
      by (cases "lead_timeline lead") (simp_all add: timeline_ok_def lead_slots_timeline)
  qed
  from seed_slots_cases [of inp]
  show "is_number (dict_get_default (seed_slots inp) ''budget_max'' (PInt 0))"
  proof
    assume "seed_slots inp = []"
    then show ?thesis by (simp add: dict_get_default_def)
  next
    assume "\<exists>lead. seed_slots inp = lead_slots lead"
    then obtain lead where "seed_slots inp = lead_slots lead" ..
    then show ?thesis
      by (cases "lead_budget_max lead")
         (simp_all add: dict_get_default_def lead_slots_budget_max)
  qed
qed

lemma qualify_returns:
  assumes "timeline_ok d" "is_number (dict_get_default d ''budget_max'' (PInt 0))"
  shows "\<exists>tier. qualify d = Inr tier"
  using assms by (simp add: qualify_def Let_def lower_timeline py_ge_number)

lemma qualify_seed_slots: "\<exists>tier. qualify (seed_slots inp) = Inr tier"
  by (rule qualify_returns) (rule seed_slots_typed)+

lemma determine_stage_returns:
  "qualify (extracted_data state) = Inr tier \<Longrightarrow> \<exists>state'. determine_stage state = Inr state'"
  by (simp add: determine_stage_def Let_def)

section \<open>The turn coordinator\<close>

lemma strip_empty_iff: "strip s = [] \<longleftrightarrow> list_all is_space s"
proof
  assume "strip s = []"
  then have r: "dropWhile is_space (rev (dropWhile is_space s)) = []"
    by (simp add: strip_def)
  show "list_all is_space s"
  proof (cases "dropWhile is_space s")
    case Nil
    then show ?thesis by (simp add: dropWhile_eq_Nil_conv list_all_iff)
  next
    case (Cons c cs)
    then have "\<not> is_space c"
      using hd_dropWhile [of is_space s] by simp
    moreover from r Cons have "is_space c"
      by (simp add: dropWhile_eq_Nil_conv)
    ultimately show ?thesis by simp
  qed
next
  assume "list_all is_space s"
  then show "strip s = []"
    by (auto simp: strip_def list_all_iff dest: set_dropWhileD)
qed

lemma blank_iff: "blank msg \<longleftrightarrow> list_all is_space msg"
  by (auto simp: blank_def strip_empty_iff)

lemma process_message_blank:
  "blank (in_message inp) \<Longrightarrow>
     process_message env inp a =
       ([(''response'', PStr prompt_for_input),
         (''session_id'', PStr (ensure_session_id inp)),
         (''extracted_data'', PDict []),
         (''lead_status'', PStr (ascii ''discovery'')),
         (''qualification'', PNone)], a)"
  by (simp add: process_message_def)

lemma process_message_shape:
  assumes "\<not> blank (in_message inp)"
  shows "\<exists>r d st q er.
     fst (process_message env inp a) =
       [(''response'', PStr r), (''session_id'', PStr (ensure_session_id inp)),
        (''extracted_data'', PDict d), (''lead_status'', PStr st),
        (''qualification'', q), (''error'', er)]
     \<and> str_or_none q \<and> str_or_none er"
proof (cases "run_graph env (clock inp) (turn_state inp) a")
  case (Pair r a')
  show ?thesis
  proof (cases r)
    case (Inr final_state)
    have "str_or_none (opt_str x)" for x
      by (cases x) (simp_all add: opt_str_def)
    with assms Pair Inr show ?thesis
      by (simp add: process_message_def)
  next
    case (Inl raised)
    obtain e failed where "raised = (e, failed)" by (cases raised)
    with assms Pair Inl show ?thesis
      by (cases e) (simp_all add: process_message_def)
  qed
qed

lemma generate_response_fallback:
  "should_use_fallback (error_context a) \<Longrightarrow>
     generate_response env now state a =
       (Inr (assistant_says (get_fallback_response ''general'') state), a)"
  by (simp add: generate_response_def)

lemma run_graph_fallback:
  assumes "should_use_fallback (error_context a)"
  shows "error_context (snd (run_graph env now state a)) = error_context a"
proof (cases "extract_slots env state a")
  case (Pair s1 a1)
  then have a1: "error_context a1 = error_context a"
    using extract_slots_error_context [of env state a] by simp
  show ?thesis
  proof (cases "determine_stage s1")
    case (Inl e)
    with Pair a1 show ?thesis by (simp add: run_graph_def)
  next
    case (Inr s2)
    from assms a1 have "should_use_fallback (error_context a1)" by simp
    from generate_response_fallback [OF this, of env now s2] Pair Inr a1 show ?thesis
      by (simp add: run_graph_def)
  qed
qed

lemma process_message_agent:
  "snd (process_message env inp a) =
     (if blank (in_message inp) then a
      else snd (run_graph env (clock inp) (turn_state inp) a))"
proof (cases "run_graph env (clock inp) (turn_state inp) a")
  case (Pair r a')
  show ?thesis
  proof (cases r)
    case (Inr final_state)
    with Pair show ?thesis by (simp add: process_message_def)
  next
    case (Inl raised)
    obtain e failed where "raised = (e, failed)" by (cases raised)
    with Pair Inl show ?thesis by (cases e) (simp_all add: process_message_def)
  qed
qed

lemma process_message_fallback:
  "should_use_fallback (error_context a) \<Longrightarrow>
     error_context (snd (process_message env inp a)) = error_context a"
  by (simp add: process_message_agent run_graph_fallback)

lemma run_turns_fallback:
  "should_use_fallback (error_context a) \<Longrightarrow>
     error_context (snd (run_turns env inps a)) = error_context a"
proof (induction inps arbitrary: a)
  case Nil
  then show ?case by simp
next
  case (Cons inp inps)
  obtain out a1 where p: "process_message env inp a = (out, a1)"
    by (cases "process_message env inp a")
  with process_message_fallback [OF Cons.prems, of env inp]
  have a1: "error_context a1 = error_context a" by simp
  with Cons.prems have "should_use_fallback (error_context a1)" by simp
  from Cons.IH [OF this] a1 p show ?case
    by (auto split: prod.splits)
qed

lemma run_graph_failed_data:
  assumes "run_graph env now state a = (Inl (e, failed), a')"
  shows "extracted_data failed = extracted_data (fst (extract_slots env state a))"
proof (cases "extract_slots env state a")
  case (Pair s1 a1)
  show ?thesis
  proof (cases "determine_stage s1")
    case (Inl x)
    with assms Pair show ?thesis by (simp add: run_graph_def)
  next
    case (Inr s2)
    from determine_stage_data [OF Inr] have d: "extracted_data s2 = extracted_data s1" by simp
    obtain r a2 where g: "generate_response env now s2 a1 = (r, a2)"
      by (cases "generate_response env now s2 a1")
    with assms Pair Inr d show ?thesis
      by (cases r) (simp_all add: run_graph_def)
  qed
qed

lemma extract_slots_nothing_merged:
  assumes "\<And>response items. fst (call_llm (llm env) a) = Inr (Some response) \<Longrightarrow>
      json_loads env (strip_fence response) \<noteq> Some (PDict items)"
  shows "extracted_data (fst (extract_slots env state a)) = extracted_data state"
proof (cases "call_llm (llm env) a")
  case (Pair r a')
  show ?thesis
  proof (cases r)
    case (Inl e)
    with Pair show ?thesis by (simp add: extract_slots_def)
  next
    case (Inr v)
    show ?thesis
    proof (cases v)
      case None
      with Pair Inr show ?thesis by (simp add: extract_slots_def)
    next
      case (Some response)
      with Pair Inr assms [of response] show ?thesis
        by (simp add: extract_slots_def split: option.splits pyval.splits)
    qed
  qed
qed

section \<open>A turn in which nothing is merged\<close>

lemma generate_response_returns:
  assumes "messages state \<noteq> []"
    and "should_use_fallback (error_context a)
         \<or> (\<exists>k. get_relevant_knowledge env (msg_content (last (messages state))) = Inr k)"
  shows "\<exists>s3 a2. generate_response env now state a = (Inr s3, a2)
     \<and> error s3 = (case generator_error env a of None \<Rightarrow> error state | Some m \<Rightarrow> Some m)
     \<and> extracted_data s3 = extracted_data state
     \<and> current_stage s3 = current_stage state
     \<and> messages s3 \<noteq> []"
proof (cases "should_use_fallback (error_context a)")
  case True
  then show ?thesis
    by (simp add: generate_response_def generator_error_def assistant_says_def)
next
  case False
  with assms(2) obtain k where
    k: "get_relevant_knowledge env (msg_content (last (messages state))) = Inr k"
    by blast
  obtain r a' where g: "generate env a = (r, a')" by (cases "generate env a")
  show ?thesis
  proof (cases r)
    case (Inr reply_text)
    with False assms(1) k g show ?thesis
      by (simp add: generate_response_def generator_error_def assistant_says_def)
  next
    case (Inl x)
    with False assms(1) k g show ?thesis
      by (cases x)
         (simp_all add: generate_response_def generator_error_def assistant_says_def)
  qed
qed

lemma stage_of_first_match: "stage_of data = first_match data"
  by (simp add: stage_of_def first_match_def has_basic_info_iff has_qualification_info_iff
      has_contact_info_iff)

lemma determine_stage_messages:
  "determine_stage state = Inr state' \<Longrightarrow> messages state' = messages state"
  by (auto simp: determine_stage_def Let_def split: if_splits sum.splits)

text \<open>A turn in which the extractor merges nothing and the generator's node returns.\<close>

lemma turn_without_merge:
  assumes nb: "\<not> blank (in_message inp)"
    and x: "extract_slots env (turn_state inp) a = (s1, a1)"
    and d: "extracted_data s1 = seed_slots inp"
    and m: "messages s1 = messages (turn_state inp)"
    and k: "should_use_fallback (error_context a) \<or> knowledge_found env inp"
  shows "dict_get (fst (process_message env inp a)) ''extracted_data'' = PDict (seed_slots inp)
     \<and> dict_get (fst (process_message env inp a)) ''lead_status''
         = PStr (first_match (seed_slots inp))
     \<and> dict_get (fst (process_message env inp a)) ''error''
         = opt_str (case generator_error env a1 of None \<Rightarrow> error s1 | Some m \<Rightarrow> Some m)"
proof -
  obtain tier where "qualify (seed_slots inp) = Inr tier"
    using qualify_seed_slots by blast
  with d obtain s2 where s2: "determine_stage s1 = Inr s2"
    using determine_stage_returns [of s1 tier] by auto
  note s2d = determine_stage_data [OF s2] determine_stage_messages [OF s2]
  have last: "messages s2 \<noteq> []"
    "msg_content (last (messages s2)) = truncated (in_message inp)"
    using s2d m by (simp_all add: turn_state_def initial_state_def)
  have ctx: "error_context a1 = error_context a"
    using extract_slots_error_context [of env "turn_state inp" a] x by simp
  from k have "should_use_fallback (error_context a1)
      \<or> (\<exists>k. get_relevant_knowledge env (msg_content (last (messages s2))) = Inr k)"
    by (auto simp: ctx last knowledge_found_def split: sum.splits)
  from generate_response_returns [OF last(1) this, of "clock inp"]
  obtain s3 a2 where g: "generate_response env (clock inp) s2 a1 = (Inr s3, a2)"
    and s3: "error s3 = (case generator_error env a1 of None \<Rightarrow> error s2 | Some m \<Rightarrow> Some m)"
      "extracted_data s3 = extracted_data s2" "current_stage s3 = current_stage s2"
      "messages s3 \<noteq> []"
    by blast
  have "run_graph env (clock inp) (turn_state inp) a = (Inr s3, a2)"
    using x s2 g by (simp add: run_graph_def save_to_db_def)
  moreover have "error s2 = error s1" "current_stage s2 = first_match (seed_slots inp)"
    "extracted_data s2 = seed_slots inp"
    using s2d d by (simp_all add: stage_of_first_match)
  ultimately show ?thesis
    using nb s3 by (simp add: process_message_def dict_get_def split: option.splits)
qed

section \<open>The merge on the slots that are not budgets\<close>

lemma dict_get_update:
  "dict_get (AList.update key v data) k = (if k = key then v else dict_get data k)"
  by (simp add: dict_get_def update_conv')

lemma merge_items_keeps:
  assumes "k \<noteq> ''budget_min''" "k \<noteq> ''budget_max''" "dict_get data k \<noteq> PNone"
  shows "dict_get (fst (merge_items data items)) k \<noteq> PNone"
  using assms(3)
proof (induction items arbitrary: data)
  case Nil
  then show ?case by simp
next
  case (Cons item items)
  obtain key v where item: "item = (key, v)" by (cases item)
  show ?case
  proof (cases "v \<noteq> PNone \<and> key \<in> set [''budget_min'', ''budget_max''] \<and> is_str v")
    case True
    with assms(1,2) have "k \<noteq> key" by auto
    with True item Cons show ?thesis
      by (cases "parse_budget v") (simp_all add: dict_get_update)
  next
    case False
    with item Cons show ?thesis
      by (cases "v = PNone") (auto simp: dict_get_update)
  qed
qed

section \<open>Claims\<close>

subsection \<open>C1: stage classification\<close>

text \<open>
  C1, as the code has it. The three predicates test the truth value of the slots, not
  their presence: a slot holding \<open>0\<close>, \<open>''\<close>, \<open>False\<close> or an empty container counts as
  absent. With the predicates read so, the stage follows the first-match rule: no basic
  information gives discovery, basic information without both qualification slots gives
  qualification, both qualification slots without both contact slots gives closing, and
  all of them give completed. The classifier raises only in the last case, and then
  because its qualification block raised.
\<close>

theorem stage_first_match:
  "(has_basic_info (extracted_data state) \<longleftrightarrow>
      truthy (dict_get (extracted_data state) ''car_brand'')
      \<or> truthy (dict_get (extracted_data state) ''budget_max'')
      \<or> truthy (dict_get (extracted_data state) ''body_type''))
   \<and> (has_qualification_info (extracted_data state) \<longleftrightarrow>
      truthy (dict_get (extracted_data state) ''car_brand'')
      \<and> truthy (dict_get (extracted_data state) ''budget_max''))
   \<and> (has_contact_info (extracted_data state) \<longleftrightarrow>
      truthy (dict_get (extracted_data state) ''name'')
      \<and> truthy (dict_get (extracted_data state) ''phone''))
   \<and> (case determine_stage state of
        Inr state' \<Rightarrow>
          current_stage state' =
            (if \<not> has_basic_info (extracted_data state) then ascii ''discovery''
             else if \<not> has_qualification_info (extracted_data state) then ascii ''qualification''
             else if \<not> has_contact_info (extracted_data state) then ascii ''closing''
             else ascii ''completed'')
      | Inl e \<Rightarrow>
          has_basic_info (extracted_data state) \<and> has_qualification_info (extracted_data state)
          \<and> has_contact_info (extracted_data state) \<and> qualify (extracted_data state) = Inl e)"
  by (auto simp: determine_stage_def stage_of_def Let_def has_basic_info_iff
      has_qualification_info_iff has_contact_info_iff split: sum.splits)

text \<open>The four mappings of the specification: no slot, the brand, brand and budget, all four.\<close>

theorem stage_first_match_witness:
  "current_stage (projr (determine_stage (state_with []))) = ascii ''discovery''
   \<and> current_stage (projr (determine_stage (state_with [(''car_brand'', PStr (ascii ''X''))])))
       = ascii ''qualification''
   \<and> current_stage (projr (determine_stage (state_with
        [(''car_brand'', PStr (ascii ''X'')), (''budget_max'', PInt 2000000)])))
       = ascii ''closing''
   \<and> current_stage (projr (determine_stage (state_with
        [(''car_brand'', PStr (ascii ''X'')), (''budget_max'', PInt 2000000),
         (''name'', PStr (ascii ''Y'')), (''phone'', PStr (ascii ''Z''))])))
       = ascii ''completed''"
  using stage_first_match [of "state_with []"]
    stage_first_match [of "state_with [(''car_brand'', PStr (ascii ''X''))]"]
    stage_first_match [of "state_with
        [(''car_brand'', PStr (ascii ''X'')), (''budget_max'', PInt 2000000)]"]
    stage_first_match [of "state_with
        [(''car_brand'', PStr (ascii ''X'')), (''budget_max'', PInt 2000000),
         (''name'', PStr (ascii ''Y'')), (''phone'', PStr (ascii ''Z''))]"]
  by (simp add: classifier_defs py_lower_def marker_urgent_def marker_fast_def)

text \<open>
  C1 as stated fails where a slot is present and false: with a brand and a budget of
  \<open>0\<close>, both qualification slots are present, so the specification's rule gives closing,
  and the classifier gives qualification.
\<close>

theorem stage_zero_budget_counterexample:
  "\<not> isl (determine_stage (state_with
        [(''car_brand'', PStr (ascii ''X'')), (''budget_max'', PInt 0)]))
   \<and> current_stage (projr (determine_stage (state_with
        [(''car_brand'', PStr (ascii ''X'')), (''budget_max'', PInt 0)])))
       = ascii ''qualification''
   \<and> claimed_stage [(''car_brand'', PStr (ascii ''X'')), (''budget_max'', PInt 0)]
       = ascii ''closing''
   \<and> ascii ''qualification'' \<noteq> ascii ''closing''"
  by (simp add: classifier_defs claimed_stage_def present_def)

subsection \<open>C2: lead qualification tier\<close>

text \<open>
  C2, as the code has it. When both contact slots and both qualification slots are true,
  \<open>budget_max\<close> is a number and \<open>timeline\<close> is absent or a text, the classifier
  returns with the tier hot when the budget is at least 3,000,000 or the lower-cased
  timeline contains an urgency marker, otherwise warm when the budget is at least
  1,500,000 or \<open>has_basic_info\<close> holds, otherwise cold. When the precondition does not
  hold the classifier leaves the tier as it found it, which in a turn is \<open>None\<close>.
\<close>

theorem qualification_tier:
  "(has_contact_info (extracted_data state) \<and> has_qualification_info (extracted_data state)
      \<and> is_number (dict_get (extracted_data state) ''budget_max'')
      \<and> timeline_ok (extracted_data state) \<longrightarrow>
      determine_stage state =
        Inr (state\<lparr>lead_qualification :=
                     Some (if num_ge (dict_get (extracted_data state) ''budget_max'') 3000000
                              \<or> urgent (extracted_data state)
                           then ascii ''hot''
                           else if num_ge (dict_get (extracted_data state) ''budget_max'') 1500000
                                   \<or> has_basic_info (extracted_data state)
                           then ascii ''warm''
                           else ascii ''cold''),
                   current_stage := ascii ''completed''\<rparr>))
   \<and> (\<not> (has_contact_info (extracted_data state)
           \<and> has_qualification_info (extracted_data state)) \<longrightarrow>
      determine_stage state = Inr (state\<lparr>current_stage := stage_of (extracted_data state)\<rparr>))
   \<and> lead_qualification (initial_state sid history msg data) = None"
  by (auto simp: determine_stage_def qualify_typed stage_of_def has_basic_info_iff
      has_qualification_info_iff initial_state_def)

text \<open>
  A budget of 5,000,000 gives hot, one of 2,000,000 warm, an urgent timeline hot, and
  without the contact slots the tier stays \<open>None\<close>.
\<close>

theorem qualification_tier_witness:
  "lead_qualification (projr (determine_stage (state_with (ready_slots 5000000))))
     = Some (ascii ''hot'')
   \<and> lead_qualification (projr (determine_stage (state_with (ready_slots 2000000))))
     = Some (ascii ''warm'')
   \<and> lead_qualification (projr (determine_stage (state_with urgent_slots)))
     = Some (ascii ''hot'')
   \<and> lead_qualification (projr (determine_stage (state_with
        [(''car_brand'', PStr (ascii ''X'')), (''budget_max'', PInt 5000000)])))
     = None"
  using qualification_tier [of "state_with (ready_slots 5000000)"]
    qualification_tier [of "state_with (ready_slots 2000000)"]
    qualification_tier [of "state_with urgent_slots"]
    qualification_tier [of "state_with
        [(''car_brand'', PStr (ascii ''X'')), (''budget_max'', PInt 5000000)]"]
  by (simp add: classifier_defs sample_defs)

text \<open>
  C2 as stated fails on a mapping that satisfies its precondition and holds a number as
  timeline: \<open>.lower()\<close> raises \<open>AttributeError\<close> and no tier is assigned.
\<close>

theorem qualification_numbered_timeline_counterexample:
  "has_contact_info numbered_timeline_slots
   \<and> has_qualification_info numbered_timeline_slots
   \<and> determine_stage (state_with numbered_timeline_slots)
       = Inl (Exc AttributeError
           (quoted (ascii ''int'') @ ascii '' object has no attribute '' @ quoted (ascii ''lower'')))"
  by (simp add: classifier_defs sample_defs)

subsection \<open>C8: the cold tier is unreachable\<close>

text \<open>
  C8. The qualification block never yields cold on a mapping with both qualification
  slots, the only mappings it runs on: the brand makes \<open>has_basic_info\<close> true, which
  forces warm when hot is not taken. So a state that leaves the classifier with the
  tier cold entered it with that tier.
\<close>

theorem cold_unreachable:
  "(has_qualification_info d \<longrightarrow> qualify d \<noteq> Inr (ascii ''cold''))
   \<and> (determine_stage state = Inr state' \<and> lead_qualification state' = Some (ascii ''cold'')
        \<longrightarrow> lead_qualification state = Some (ascii ''cold''))"
proof -
  have "lead_qualification state = Some (ascii ''cold'')"
    if "determine_stage state = Inr state'" "lead_qualification state' = Some (ascii ''cold'')"
    using that qualify_not_cold [of "extracted_data state"]
    by (auto simp: determine_stage_def Let_def split: if_splits sum.splits)
  with qualify_not_cold [of d] show ?thesis by blast
qed

text \<open>The lead of the test \<open>test_cold_lead_low_budget\<close>: a budget of 500,000 gives warm.\<close>

theorem cold_unreachable_witness:
  "has_qualification_info (ready_slots 500000)
   \<and> qualify (ready_slots 500000) = Inr (ascii ''warm'')
   \<and> qualify (ready_slots 500000) \<noteq> Inr (ascii ''cold'')
   \<and> determine_stage (state_with (ready_slots 500000))
       = Inr ((state_with (ready_slots 500000))
               \<lparr>lead_qualification := Some (ascii ''warm''), current_stage := ascii ''completed''\<rparr>)
   \<and> lead_qualification (state_with (ready_slots 500000)) \<noteq> Some (ascii ''cold'')"
  using cold_unreachable [of "ready_slots 500000" "state_with (ready_slots 500000)"
      "(state_with (ready_slots 500000))
         \<lparr>lead_qualification := Some (ascii ''warm''), current_stage := ascii ''completed''\<rparr>"]
  by (simp add: classifier_defs sample_defs)

subsection \<open>C3: the budget normaliser\<close>

text \<open>
  C3 at the input \<open>"1,500,000"\<close>. The commas become full stops, the pattern takes
  \<open>1.500.000\<close> as the first numeric substring, and \<open>float\<close> raises \<open>ValueError\<close> on it:
  the normaliser returns neither an integer nor \<open>None\<close>.
\<close>

theorem parse_budget_grouped_digits:
  "parse_budget (PStr (ascii ''1,500,000''))
     = Inl (Exc ValueError
         (ascii ''could not convert string to float: '' @ quoted (ascii ''1.500.000'')))"
  by code_simp

text \<open>
  The inputs of the specification and of the tests: \<open>"2"\<close>, \<open>"2.5 mln"\<close>, \<open>"500 tys"\<close>,
  a literal amount, a text without digits, the empty text, numbers, and the
  Arabic-Indic digits of \<open>3\<close> and of \<open>3.5 mln\<close>.
\<close>

lemma parse_budget_examples:
  "parse_budget (PStr (ascii ''2'')) = Inr (PInt 2000000)"
  "parse_budget (PStr [50, 46, 53, 32, 1084, 1083, 1085]) = Inr (PInt 2500000)"
  "parse_budget (PStr [53, 48, 48, 32, 1090, 1099, 1089]) = Inr (PInt 500000)"
  "parse_budget (PStr (ascii ''2000000'')) = Inr (PInt 2000000)"
  "parse_budget (PStr undecided) = Inr PNone"
  "parse_budget (PStr []) = Inr PNone"
  "parse_budget (PInt 2000000) = Inr (PInt 2000000)"
  "parse_budget (PFloat (Finite 5 (- 1))) = Inr (PInt 2)"
  "parse_budget PNone = Inr PNone"
  "parse_budget (PStr [1635]) = Inr (PInt 3000000)"
  "parse_budget (PStr [1635, 46, 1637, 32, 1084, 1083, 1085]) = Inr (PInt 3500000)"
  by code_simp+

subsection \<open>C4: slot merge\<close>

text \<open>
  C4 at a known budget of 2,000,000 and an extraction that returns the budget as a text
  without digits. The text is not \<open>None\<close>, so the guard lets it through; \<open>_parse_budget\<close>
  turns it into \<open>None\<close>, and \<open>None\<close> is stored over the known value. The slot is
  missing again after the turn. (For the slots that are not budgets the claim holds:
  \<open>merge_items_keeps\<close>.)
\<close>

theorem merge_nulls_budget:
  "merge_items [(''budget_max'', PInt 2000000)] [(''budget_max'', PStr undecided)]
     = ([(''budget_max'', PNone)], None)
   \<and> extracted_data (fst (extract_slots
        (sample_env (answering (ascii ''{}'')) (Some (PDict [(''budget_max'', PStr undecided)])))
        (state_with [(''budget_max'', PInt 2000000)]) fresh_agent))
     = [(''budget_max'', PNone)]
   \<and> ''budget_max'' \<in> set (missing_slots (fst (extract_slots
        (sample_env (answering (ascii ''{}'')) (Some (PDict [(''budget_max'', PStr undecided)])))
        (state_with [(''budget_max'', PInt 2000000)]) fresh_agent)))"
  by code_simp

subsection \<open>C5: retry semantics\<close>

text \<open>
  C5, as the code has it, for a call wrapped with any parameters. After \<open>k\<close> transient
  failures, \<open>k\<close> below \<open>max_retries\<close>: a success returns its value, with \<open>k + 1\<close>
  invocations and the \<open>k\<close> delays of the attempts \<open>0\<close> to \<open>k - 1\<close>; a failure that is not
  transient is converted by \<open>handle_openai_error\<close> and raised at once, with no further
  delay. When all \<open>max_retries\<close> attempts fail transiently, the last failure is converted
  and raised, after \<open>max_retries - 1\<close> delays. The delay after attempt \<open>i\<close> is
  \<open>min (base_delay * 2 ^ i) max_delay\<close>. An authentication failure is not transient and
  is converted into an error that is not recoverable; every other failure, the
  unrecognised ones included, is converted into a recoverable error.
\<close>

theorem retry_semantics:
  "(k < nat (max_retries cfg) \<and> failing_transiently script (llm_calls a) k
      \<and> script (llm_calls a + k) = Inr v \<longrightarrow>
      with_retry cfg (ainvoke script) a =
        (Inr (Some v),
         a\<lparr>llm_calls := llm_calls a + k + 1,
           slept := slept a @ map (retry_delay cfg) [0..<k]\<rparr>))
   \<and> (0 < max_retries cfg \<and> failing_transiently script (llm_calls a) (nat (max_retries cfg) - 1)
      \<and> script (llm_calls a + (nat (max_retries cfg) - 1)) = Inl e \<and> transient e \<longrightarrow>
      with_retry cfg (ainvoke script) a =
        (Inl (handle_openai_error e),
         a\<lparr>llm_calls := llm_calls a + nat (max_retries cfg),
           slept := slept a @ map (retry_delay cfg) [0..<nat (max_retries cfg) - 1]\<rparr>))
   \<and> (k < nat (max_retries cfg) \<and> failing_transiently script (llm_calls a) k
      \<and> script (llm_calls a + k) = Inl e \<and> \<not> transient e \<longrightarrow>
      with_retry cfg (ainvoke script) a =
        (Inl (handle_openai_error e),
         a\<lparr>llm_calls := llm_calls a + k + 1,
           slept := slept a @ map (retry_delay cfg) [0..<k]\<rparr>))
   \<and> (exponential_backoff cfg \<longrightarrow>
      retry_delay cfg attempt = min (base_delay cfg * 2 ^ attempt) (max_delay cfg))
   \<and> (transient e \<longleftrightarrow>
      isinstance e RateLimitError \<or> isinstance e APIConnectionError \<or> isinstance e APITimeoutError)
   \<and> (isinstance e AuthenticationError \<longrightarrow> \<not> transient e)
   \<and> (recoverable (handle_openai_error e) \<longleftrightarrow> \<not> isinstance e AuthenticationError)"
proof -
  have exhaust: "with_retry cfg (ainvoke script) a =
        (Inl (handle_openai_error e),
         a\<lparr>llm_calls := llm_calls a + nat (max_retries cfg),
           slept := slept a @ map (retry_delay cfg) [0..<nat (max_retries cfg) - 1]\<rparr>)"
    if "0 < max_retries cfg" "failing_transiently script (llm_calls a) (nat (max_retries cfg) - 1)"
      "script (llm_calls a + (nat (max_retries cfg) - 1)) = Inl e"
  proof -
    have "nat (max_retries cfg) - 1 < nat (max_retries cfg)"
      "\<not> int (nat (max_retries cfg) - 1) < max_retries cfg - 1"
      using that(1) by auto
    with with_retry_settles [of "nat (max_retries cfg) - 1" cfg script a "Inl e"] that
    show ?thesis by simp
  qed
  have success: "with_retry cfg (ainvoke script) a =
        (Inr (Some v),
         a\<lparr>llm_calls := llm_calls a + k + 1,
           slept := slept a @ map (retry_delay cfg) [0..<k]\<rparr>)"
    if "k < nat (max_retries cfg)" "failing_transiently script (llm_calls a) k"
      "script (llm_calls a + k) = Inr v"
    using with_retry_settles [of k cfg script a "Inr v"] that by simp
  have refuse: "with_retry cfg (ainvoke script) a =
        (Inl (handle_openai_error e),
         a\<lparr>llm_calls := llm_calls a + k + 1,
           slept := slept a @ map (retry_delay cfg) [0..<k]\<rparr>)"
    if "k < nat (max_retries cfg)" "failing_transiently script (llm_calls a) k"
      "script (llm_calls a + k) = Inl e" "\<not> transient e"
    using with_retry_settles [of k cfg script a "Inl e"] that by simp
  show ?thesis
  proof (intro conjI impI)
    show "retry_delay cfg attempt = min (base_delay cfg * 2 ^ attempt) (max_delay cfg)"
      if "exponential_backoff cfg"
      using that by (simp add: retry_delay_def)
    show "transient e \<longleftrightarrow>
      isinstance e RateLimitError \<or> isinstance e APIConnectionError \<or> isinstance e APITimeoutError"
      by (simp add: transient_def)
    show "\<not> transient e" if "isinstance e AuthenticationError"
      using that by (rule not_transient_auth)
    show "recoverable (handle_openai_error e) \<longleftrightarrow> \<not> isinstance e AuthenticationError"
      by (rule recoverable_handle)
  qed (use exhaust success refuse in blast)+
qed

text \<open>
  With the defaults of \<open>_call_llm\<close>: two transient failures and a success give the
  answer after three invocations and the delays 1 and 2; three connection failures give
  \<open>AIConnectionError\<close> after three invocations and the same delays; an authentication
  failure gives \<open>AIAuthError\<close> after one invocation and no delay.
\<close>

theorem retry_semantics_witness:
  "with_retry default_retry (ainvoke flaky) fresh_agent
     = (Inr (Some (reply (ascii ''ok''))), fresh_agent\<lparr>llm_calls := 3, slept := [1, 2]\<rparr>)
   \<and> with_retry default_retry (ainvoke (raising (Exc APIConnectionError []))) fresh_agent
     = (Inl AIConnectionError, fresh_agent\<lparr>llm_calls := 3, slept := [1, 2]\<rparr>)
   \<and> with_retry default_retry (ainvoke (raising (Exc AuthenticationError []))) fresh_agent
     = (Inl AIAuthError, fresh_agent\<lparr>llm_calls := 1, slept := []\<rparr>)
   \<and> \<not> recoverable AIAuthError"
proof -
  have flaky: "failing_transiently flaky (llm_calls fresh_agent) 2"
    by (simp add: failing_transiently_iff flaky_def fresh_agent_def transient_def
        eval_nat_numeral less_Suc_eq)
  have down: "failing_transiently (raising (Exc APIConnectionError [])) (llm_calls fresh_agent)
      (nat (max_retries default_retry) - 1)"
    by (simp add: failing_transiently_iff raising_def fresh_agent_def transient_def)
  have none: "failing_transiently (raising (Exc AuthenticationError [])) (llm_calls fresh_agent) 0"
    by (simp add: failing_transiently_iff)
  from flaky
    retry_semantics [where k = 2 and cfg = default_retry and script = flaky
      and a = fresh_agent and v = "reply (ascii ''ok'')"]
  have one: "with_retry default_retry (ainvoke flaky) fresh_agent
     = (Inr (Some (reply (ascii ''ok''))), fresh_agent\<lparr>llm_calls := 3, slept := [1, 2]\<rparr>)"
    by (simp add: flaky_def fresh_agent_def default_retry_def retry_delay_def eval_nat_numeral)
  from down
    retry_semantics [where cfg = default_retry and a = fresh_agent
      and script = "raising (Exc APIConnectionError [])" and e = "Exc APIConnectionError []"]
  have two: "with_retry default_retry (ainvoke (raising (Exc APIConnectionError []))) fresh_agent
     = (Inl AIConnectionError, fresh_agent\<lparr>llm_calls := 3, slept := [1, 2]\<rparr>)"
    by (simp add: raising_def fresh_agent_def default_retry_def retry_delay_def
        eval_nat_numeral transient_def handle_openai_error_def)
  from none
    retry_semantics [where k = 0 and cfg = default_retry and a = fresh_agent
      and script = "raising (Exc AuthenticationError [])" and e = "Exc AuthenticationError []"]
  have three: "with_retry default_retry (ainvoke (raising (Exc AuthenticationError []))) fresh_agent
     = (Inl AIAuthError, fresh_agent\<lparr>llm_calls := 1, slept := []\<rparr>)
     \<and> \<not> recoverable AIAuthError"
    by (simp add: raising_def fresh_agent_def default_retry_def transient_def
        handle_openai_error_def AIAuthError_def)
  from one two three show ?thesis by simp
qed

text \<open>
  C5 as stated fails for an unrecognised failure: it is raised at the first attempt
  and without delay, but as a recoverable error.
\<close>

theorem unrecognised_failure_counterexample:
  "with_retry default_retry (ainvoke (raising (Exc OtherException (ascii ''boom'')))) fresh_agent
     = (Inl \<lparr>message = ascii ''boom'', user_message = unknown_user_message, recoverable = True\<rparr>,
        fresh_agent\<lparr>llm_calls := 1\<rparr>)
   \<and> recoverable (handle_openai_error (Exc OtherException (ascii ''boom'')))"
  by (simp add: with_retry_def default_retry_def upt_conv_Cons ainvoke_def raising_def
      transient_def handle_openai_error_def fresh_agent_def)

subsection \<open>C6: failures of the slot extraction\<close>

text \<open>
  C6, as the code has it. When the payload of the oracle is malformed (\<open>json.loads\<close>
  raises), the extractor leaves the slot mapping and the \<open>error\<close> field as they were and
  recomputes \<open>missing_slots\<close>. When the wrapped call raises an \<open>AIServiceError\<close>, which is
  all it can raise, retries exhausted or not, the extractor sets \<open>error\<close> to the
  user-facing message, leaves the slot mapping as it was and recomputes \<open>missing_slots\<close>.
  In both cases, in a turn with a message that is not empty and whose knowledge lookup
  returns (or whose agent is in fallback mode), the outcome of the turn holds the slots
  that already existed, the stage that the first-match rule gives on them, and as
  \<open>error\<close> what the extractor left (null, respectively the user-facing message) only if
  the generation that follows does not fail: if it fails, the outcome's \<open>error\<close> is the
  generator's text instead.
\<close>

theorem extraction_failures:
  "(call_llm (llm env) a = (Inr (Some response), a1)
      \<and> json_loads env (strip_fence response) = None \<longrightarrow>
      extracted_data (fst (extract_slots env state a)) = extracted_data state
      \<and> error (fst (extract_slots env state a)) = error state
      \<and> missing_slots (fst (extract_slots env state a))
          = filter (\<lambda>slot. dict_get (extracted_data state) slot = PNone) SLOTS
      \<and> (\<not> blank (in_message inp)
          \<and> (should_use_fallback (error_context a) \<or> knowledge_found env inp) \<longrightarrow>
          dict_get (fst (process_message env inp a)) ''extracted_data'' = PDict (seed_slots inp)
          \<and> dict_get (fst (process_message env inp a)) ''lead_status''
              = PStr (first_match (seed_slots inp))
          \<and> dict_get (fst (process_message env inp a)) ''error''
              = (case generator_error env a1 of None \<Rightarrow> PNone | Some m \<Rightarrow> PStr m)))
   \<and> (call_llm (llm env) a = (Inl e, a1) \<longrightarrow>
      extracted_data (fst (extract_slots env state a)) = extracted_data state
      \<and> error (fst (extract_slots env state a)) = Some (user_message e)
      \<and> missing_slots (fst (extract_slots env state a))
          = filter (\<lambda>slot. dict_get (extracted_data state) slot = PNone) SLOTS
      \<and> (\<not> blank (in_message inp)
          \<and> (should_use_fallback (error_context a) \<or> knowledge_found env inp) \<longrightarrow>
          dict_get (fst (process_message env inp a)) ''extracted_data'' = PDict (seed_slots inp)
          \<and> dict_get (fst (process_message env inp a)) ''lead_status''
              = PStr (first_match (seed_slots inp))
          \<and> dict_get (fst (process_message env inp a)) ''error''
              = PStr (case generator_error env a1 of None \<Rightarrow> user_message e | Some m \<Rightarrow> m)))"
proof (intro conjI impI)
  assume h: "call_llm (llm env) a = (Inr (Some response), a1)
      \<and> json_loads env (strip_fence response) = None"
  then have m: "extract_slots env st a =
     (st\<lparr>missing_slots := filter (\<lambda>slot. dict_get (extracted_data st) slot = PNone) SLOTS\<rparr>, a1)"
    for st
    by (simp add: extract_slots_malformed)
  show "extracted_data (fst (extract_slots env state a)) = extracted_data state"
    by (simp add: m)
  show "error (fst (extract_slots env state a)) = error state"
    by (simp add: m)
  show "missing_slots (fst (extract_slots env state a))
          = filter (\<lambda>slot. dict_get (extracted_data state) slot = PNone) SLOTS"
    by (simp add: m)
  assume t: "\<not> blank (in_message inp)
          \<and> (should_use_fallback (error_context a) \<or> knowledge_found env inp)"
  have turn: "dict_get (fst (process_message env inp a)) ''extracted_data'' = PDict (seed_slots inp)
     \<and> dict_get (fst (process_message env inp a)) ''lead_status''
         = PStr (first_match (seed_slots inp))
     \<and> dict_get (fst (process_message env inp a)) ''error''
         = opt_str (case generator_error env a1 of
                      None \<Rightarrow> error ((turn_state inp)\<lparr>missing_slots :=
                          filter (\<lambda>slot. dict_get (extracted_data (turn_state inp)) slot = PNone)
                            SLOTS\<rparr>)
                    | Some m \<Rightarrow> Some m)"
    using t by (intro turn_without_merge [OF _ m])
      (simp_all add: turn_state_def initial_state_def)
  from turn show "dict_get (fst (process_message env inp a)) ''extracted_data''
      = PDict (seed_slots inp)"
    by simp
  from turn show "dict_get (fst (process_message env inp a)) ''lead_status''
      = PStr (first_match (seed_slots inp))"
    by simp
  from turn show "dict_get (fst (process_message env inp a)) ''error''
      = (case generator_error env a1 of None \<Rightarrow> PNone | Some m \<Rightarrow> PStr m)"
    by (simp add: turn_state_def initial_state_def opt_str_def split: option.splits)
next
  assume f: "call_llm (llm env) a = (Inl e, a1)"
  have fc: "extract_slots env st a =
     (st\<lparr>error := Some (user_message e),
         missing_slots := filter (\<lambda>slot. dict_get (extracted_data st) slot = PNone) SLOTS\<rparr>, a1)"
    for st
    by (rule extract_slots_failed_call [OF f])
  show "extracted_data (fst (extract_slots env state a)) = extracted_data state"
    by (simp add: fc)
  show "error (fst (extract_slots env state a)) = Some (user_message e)"
    by (simp add: fc)
  show "missing_slots (fst (extract_slots env state a))
          = filter (\<lambda>slot. dict_get (extracted_data state) slot = PNone) SLOTS"
    by (simp add: fc)
  assume t: "\<not> blank (in_message inp)
          \<and> (should_use_fallback (error_context a) \<or> knowledge_found env inp)"
  have turn: "dict_get (fst (process_message env inp a)) ''extracted_data'' = PDict (seed_slots inp)
     \<and> dict_get (fst (process_message env inp a)) ''lead_status''
         = PStr (first_match (seed_slots inp))
     \<and> dict_get (fst (process_message env inp a)) ''error''
         = opt_str (case generator_error env a1 of
                      None \<Rightarrow> error ((turn_state inp)\<lparr>error := Some (user_message e),
                          missing_slots :=
                          filter (\<lambda>slot. dict_get (extracted_data (turn_state inp)) slot = PNone)
                            SLOTS\<rparr>)
                    | Some m \<Rightarrow> Some m)"
    using t by (intro turn_without_merge [OF _ fc])
      (simp_all add: turn_state_def initial_state_def)
  from turn show "dict_get (fst (process_message env inp a)) ''extracted_data''
      = PDict (seed_slots inp)"
    by simp
  from turn show "dict_get (fst (process_message env inp a)) ''lead_status''
      = PStr (first_match (seed_slots inp))"
    by simp
  from turn show "dict_get (fst (process_message env inp a)) ''error''
      = PStr (case generator_error env a1 of None \<Rightarrow> user_message e | Some m \<Rightarrow> m)"
    by (simp add: opt_str_def split: option.splits)
qed

text \<open>
  The turn \<open>hi\<close> of a session whose stored lead has a brand and a budget: with an answer
  that is not JSON; and with a model that is rate-limited during the three attempts of the
  extraction and answers to the generator.
\<close>

theorem extraction_failures_witness:
  "dict_get (fst (process_message (sample_env (answering (ascii ''oops'')) None) returning_turn
      fresh_agent)) ''extracted_data''
     = PDict [(''car_brand'', PStr (ascii ''Toyota'')), (''budget_max'', PInt 2000000)]
   \<and> dict_get (fst (process_message (sample_env (answering (ascii ''oops'')) None) returning_turn
      fresh_agent)) ''lead_status'' = PStr (ascii ''closing'')
   \<and> dict_get (fst (process_message (sample_env (answering (ascii ''oops'')) None) returning_turn
      fresh_agent)) ''error'' = PNone
   \<and> missing_slots (fst (extract_slots (sample_env (answering (ascii ''oops'')) None)
        (turn_state returning_turn) fresh_agent))
       = [''car_model'', ''budget_min'', ''country'', ''timeline'', ''body_type'', ''name'',
          ''phone'']
   \<and> error (fst (extract_slots (sample_env recovering None) (turn_state returning_turn)
        fresh_agent)) = Some rate_limit_user_message
   \<and> dict_get (fst (process_message (sample_env recovering None) returning_turn fresh_agent))
        ''extracted_data''
     = PDict [(''car_brand'', PStr (ascii ''Toyota'')), (''budget_max'', PInt 2000000)]
   \<and> dict_get (fst (process_message (sample_env recovering None) returning_turn fresh_agent))
        ''lead_status'' = PStr (ascii ''closing'')
   \<and> dict_get (fst (process_message (sample_env recovering None) returning_turn fresh_agent))
        ''error'' = PStr rate_limit_user_message"
proof -
  have answered: "call_llm (llm (sample_env (answering (ascii ''oops'')) None)) fresh_agent
      = (Inr (Some (ascii ''oops'')), fresh_agent\<lparr>llm_calls := 1\<rparr>)"
    by code_simp
  have unread: "json_loads (sample_env (answering (ascii ''oops'')) None)
      (strip_fence (ascii ''oops'')) = None"
    by (simp add: sample_env_def)
  have failed: "call_llm (llm (sample_env recovering None)) fresh_agent
      = (Inl RateLimitExceeded, fresh_agent\<lparr>llm_calls := 3, slept := [1, 2]\<rparr>)"
    by code_simp
  have nb: "\<not> blank (in_message returning_turn)"
    by code_simp
  have found: "knowledge_found (sample_env script None) returning_turn" for script
    by (simp add: knowledge_found_def sample_env_def)
  have quiet: "generator_error (sample_env (answering (ascii ''oops'')) None)
      (fresh_agent\<lparr>llm_calls := 1\<rparr>) = None"
    by code_simp
  have recovered: "generator_error (sample_env recovering None)
      (fresh_agent\<lparr>llm_calls := 3, slept := [1, 2]\<rparr>) = None"
    by code_simp
  have seeds: "seed_slots returning_turn
      = [(''car_brand'', PStr (ascii ''Toyota'')), (''budget_max'', PInt 2000000)]"
    by code_simp
  have stage: "first_match [(''car_brand'', PStr (ascii ''Toyota'')), (''budget_max'', PInt 2000000)]
      = ascii ''closing''"
    by code_simp
  have slots: "filter (\<lambda>slot. dict_get (extracted_data (turn_state returning_turn)) slot = PNone)
        SLOTS
      = [''car_model'', ''budget_min'', ''country'', ''timeline'', ''body_type'', ''name'',
          ''phone'']"
    by code_simp
  from answered unread nb found quiet
    extraction_failures [where env = "sample_env (answering (ascii ''oops'')) None"
      and a = fresh_agent and response = "ascii ''oops''"
      and ?a1.0 = "fresh_agent\<lparr>llm_calls := 1\<rparr>" and state = "turn_state returning_turn"
      and inp = returning_turn]
  have one: "dict_get (fst (process_message (sample_env (answering (ascii ''oops'')) None)
      returning_turn fresh_agent)) ''extracted_data''
     = PDict [(''car_brand'', PStr (ascii ''Toyota'')), (''budget_max'', PInt 2000000)]
   \<and> dict_get (fst (process_message (sample_env (answering (ascii ''oops'')) None) returning_turn
      fresh_agent)) ''lead_status'' = PStr (ascii ''closing'')
   \<and> dict_get (fst (process_message (sample_env (answering (ascii ''oops'')) None) returning_turn
      fresh_agent)) ''error'' = PNone
   \<and> missing_slots (fst (extract_slots (sample_env (answering (ascii ''oops'')) None)
        (turn_state returning_turn) fresh_agent))
       = [''car_model'', ''budget_min'', ''country'', ''timeline'', ''body_type'', ''name'',
          ''phone'']"
    by (simp add: seeds stage slots)
  from failed nb found recovered
    extraction_failures [where env = "sample_env recovering None"
      and a = fresh_agent and e = RateLimitExceeded
      and ?a1.0 = "fresh_agent\<lparr>llm_calls := 3, slept := [1, 2]\<rparr>"
      and state = "turn_state returning_turn" and inp = returning_turn]
  have two: "error (fst (extract_slots (sample_env recovering None) (turn_state returning_turn)
        fresh_agent)) = Some rate_limit_user_message
   \<and> dict_get (fst (process_message (sample_env recovering None) returning_turn fresh_agent))
        ''extracted_data''
     = PDict [(''car_brand'', PStr (ascii ''Toyota'')), (''budget_max'', PInt 2000000)]
   \<and> dict_get (fst (process_message (sample_env recovering None) returning_turn fresh_agent))
        ''lead_status'' = PStr (ascii ''closing'')
   \<and> dict_get (fst (process_message (sample_env recovering None) returning_turn fresh_agent))
        ''error'' = PStr rate_limit_user_message"
    by (simp add: seeds stage RateLimitExceeded_def)
  from one two show ?thesis by simp
qed

text \<open>
  C6 as stated fails when the generation fails too: with a model that is rate-limited at
  every invocation the extractor sets \<open>error\<close> to the user-facing message of the
  rate limit, and the generator, whose invocation is not wrapped, overwrites it with
  \<open>str(e)\<close> of the raw exception: the outcome's \<open>error\<close> is the text \<open>rl\<close>.
\<close>

theorem overwritten_error_counterexample:
  "fst (call_llm (llm (sample_env (raising (Exc RateLimitError (ascii ''rl''))) None)) fresh_agent)
     = Inl RateLimitExceeded
   \<and> user_message RateLimitExceeded = rate_limit_user_message
   \<and> error (fst (extract_slots (sample_env (raising (Exc RateLimitError (ascii ''rl''))) None)
        (turn_state returning_turn) fresh_agent)) = Some rate_limit_user_message
   \<and> dict_get (fst (process_message (sample_env (raising (Exc RateLimitError (ascii ''rl''))) None)
        returning_turn fresh_agent)) ''error'' = PStr (ascii ''rl'')
   \<and> ascii ''rl'' \<noteq> rate_limit_user_message"
  by code_simp

subsection \<open>C7: the outcome of a turn\<close>

text \<open>
  C7 at the empty message, and at a message of white space. \<open>process_message\<close> returns
  the fixed prompt for input under the session identifier given and leaves the agent as it
  was, without an invocation of the model; but the outcome it returns has five fields,
  and \<open>error\<close> is not one of them, while the outcome of the turn \<open>hi\<close> has the six fields
  of the contract. (On every message that is not empty the outcome has the six fields:
  \<open>process_message_shape\<close>.)
\<close>

theorem empty_message_outcome:
  "process_message (sample_env (answering (ascii ''ok'')) None) (sample_turn []) fresh_agent
     = ([(''response'', PStr prompt_for_input),
         (''session_id'', PStr (ascii ''s1'')),
         (''extracted_data'', PDict []),
         (''lead_status'', PStr (ascii ''discovery'')),
         (''qualification'', PNone)], fresh_agent)
   \<and> map_of (fst (process_message (sample_env (answering (ascii ''ok'')) None) (sample_turn [])
        fresh_agent)) ''error'' = None
   \<and> map fst (fst (process_message (sample_env (answering (ascii ''ok'')) None)
        (sample_turn [32, 9, 10]) fresh_agent))
     = [''response'', ''session_id'', ''extracted_data'', ''lead_status'', ''qualification'']
   \<and> map fst (fst (process_message (sample_env (answering (ascii ''ok'')) None)
        (sample_turn (ascii ''hi'')) fresh_agent))
     = [''response'', ''session_id'', ''extracted_data'', ''lead_status'', ''qualification'',
        ''error'']"
  by code_simp

subsection \<open>C9: fallback mode is permanent\<close>

text \<open>
  C9. Fallback mode is a streak of at least three consecutive errors. In fallback mode
  the generator appends the canned reply and leaves the agent as it was: no invocation
  of the model, no success and no error recorded. The extractor never touches the
  \<open>ErrorContext\<close>, so a turn that starts in fallback mode ends with the same
  \<open>ErrorContext\<close>, and so does every sequence of turns: the agent stays in fallback mode.
\<close>

theorem fallback_permanent:
  "(should_use_fallback (error_context a) \<longleftrightarrow> 3 \<le> consecutive_errors (error_context a))
   \<and> (should_use_fallback (error_context a) \<longrightarrow>
        generate_response env now state a =
          (Inr (assistant_says (get_fallback_response ''general'') state), a)
        \<and> error_context (snd (process_message env inp a)) = error_context a
        \<and> error_context (snd (run_turns env inps a)) = error_context a
        \<and> should_use_fallback (error_context (snd (run_turns env inps a))))"
  by (simp add: generate_response_fallback process_message_fallback run_turns_fallback)
     (simp add: should_use_fallback_def)

text \<open>An agent with a streak of three, a model that would answer, and two turns.\<close>

theorem fallback_permanent_witness:
  "should_use_fallback (error_context stuck_agent)
   \<and> generate_response (sample_env (answering (ascii ''ok'')) None) (Finite 0 0) (state_with [])
        stuck_agent
       = (Inr (assistant_says fallback_general (state_with [])), stuck_agent)
   \<and> should_use_fallback (error_context (snd (run_turns (sample_env (answering (ascii ''ok'')) None)
        [sample_turn (ascii ''hi''), sample_turn (ascii ''hi'')] stuck_agent)))"
proof -
  have s: "should_use_fallback (error_context stuck_agent)"
    by (simp add: should_use_fallback_def stuck_agent_def)
  from s
    fallback_permanent [where a = stuck_agent and now = "Finite 0 0" and state = "state_with []"
      and env = "sample_env (answering (ascii ''ok'')) None"
      and inps = "[sample_turn (ascii ''hi''), sample_turn (ascii ''hi'')]"]
  show ?thesis
    by (simp add: get_fallback_response_def FALLBACK_RESPONSES_def)
qed

subsection \<open>C10: the outcome when the pipeline raises\<close>

text \<open>
  C10, as the code has it. When the graph raises, the outcome has the lead status
  \<open>error\<close>, which is none of the four stages, a null qualification, an error text (the
  user-facing message of an \<open>AIServiceError\<close>, the \<open>str()\<close> of any other exception) and, as
  extracted_data, the seeded dictionary as the extractor left it: the seeded slots
  with the slots that this turn's extraction merged into them. It is the seeded slots
  alone when the extraction merged nothing, because the call failed or its payload was
  not a JSON object.
\<close>

theorem exception_outcome:
  "(\<not> blank (in_message inp)
      \<and> run_graph env (clock inp) (turn_state inp) a = (Inl (e, failed), a') \<longrightarrow>
      dict_get (fst (process_message env inp a)) ''lead_status'' = PStr (ascii ''error'')
      \<and> dict_get (fst (process_message env inp a)) ''qualification'' = PNone
      \<and> dict_get (fst (process_message env inp a)) ''extracted_data''
          = PDict (extracted_data (fst (extract_slots env (turn_state inp) a)))
      \<and> dict_get (fst (process_message env inp a)) ''error''
          = PStr (case e of ServiceError se \<Rightarrow> user_message se | Exc c m \<Rightarrow> m)
      \<and> dict_get (fst (process_message env inp a)) ''response''
          = PStr (case e of ServiceError se \<Rightarrow> user_message se
                  | Exc c m \<Rightarrow> get_fallback_response ''general''))
   \<and> ascii ''error'' \<notin> set [ascii ''discovery'', ascii ''qualification'', ascii ''closing'',
        ascii ''completed'']
   \<and> ((\<forall>response items. fst (call_llm (llm env) a) = Inr (Some response) \<longrightarrow>
          json_loads env (strip_fence response) \<noteq> Some (PDict items)) \<longrightarrow>
        extracted_data (fst (extract_slots env (turn_state inp) a)) = seed_slots inp)"
proof (intro conjI impI)
  assume h: "\<not> blank (in_message inp)
      \<and> run_graph env (clock inp) (turn_state inp) a = (Inl (e, failed), a')"
  note d = run_graph_failed_data [of env "clock inp" "turn_state inp" a e failed a']
  from h d show "dict_get (fst (process_message env inp a)) ''lead_status'' = PStr (ascii ''error'')"
    by (cases e) (simp_all add: process_message_def dict_get_def)
  from h d show "dict_get (fst (process_message env inp a)) ''qualification'' = PNone"
    by (cases e) (simp_all add: process_message_def dict_get_def)
  from h d show "dict_get (fst (process_message env inp a)) ''extracted_data''
          = PDict (extracted_data (fst (extract_slots env (turn_state inp) a)))"
    by (cases e) (simp_all add: process_message_def dict_get_def)
  from h d show "dict_get (fst (process_message env inp a)) ''error''
          = PStr (case e of ServiceError se \<Rightarrow> user_message se | Exc c m \<Rightarrow> m)"
    by (cases e) (simp_all add: process_message_def dict_get_def)
  from h d show "dict_get (fst (process_message env inp a)) ''response''
          = PStr (case e of ServiceError se \<Rightarrow> user_message se
                  | Exc c m \<Rightarrow> get_fallback_response ''general'')"
    by (cases e) (simp_all add: process_message_def dict_get_def)
next
  show "ascii ''error'' \<notin> set [ascii ''discovery'', ascii ''qualification'', ascii ''closing'',
        ascii ''completed'']"
    by (simp add: ascii_def)
next
  assume "\<forall>response items. fst (call_llm (llm env) a) = Inr (Some response) \<longrightarrow>
          json_loads env (strip_fence response) \<noteq> Some (PDict items)"
  then have "extracted_data (fst (extract_slots env (turn_state inp) a))
      = extracted_data (turn_state inp)"
    by (intro extract_slots_nothing_merged) blast
  then show "extracted_data (fst (extract_slots env (turn_state inp) a)) = seed_slots inp"
    by (simp add: turn_state_def initial_state_def)
qed

text \<open>
  A first turn in which the oracle returns five slots, the timeline as a number: the
  classifier raises \<open>AttributeError\<close> and the outcome carries the five slots.
\<close>

theorem exception_outcome_witness:
  "dict_get (fst (process_message
        (sample_env (answering timeline_reply) (Some (PDict numbered_timeline_slots)))
        (sample_turn (ascii ''hi'')) fresh_agent)) ''lead_status'' = PStr (ascii ''error'')
   \<and> dict_get (fst (process_message
        (sample_env (answering timeline_reply) (Some (PDict numbered_timeline_slots)))
        (sample_turn (ascii ''hi'')) fresh_agent)) ''qualification'' = PNone
   \<and> dict_get (fst (process_message
        (sample_env (answering timeline_reply) (Some (PDict numbered_timeline_slots)))
        (sample_turn (ascii ''hi'')) fresh_agent)) ''extracted_data''
       = PDict numbered_timeline_slots
   \<and> dict_get (fst (process_message
        (sample_env (answering timeline_reply) (Some (PDict numbered_timeline_slots)))
        (sample_turn (ascii ''hi'')) fresh_agent)) ''error''
       = PStr (quoted (ascii ''int'') @ ascii '' object has no attribute ''
               @ quoted (ascii ''lower''))
   \<and> dict_get (fst (process_message
        (sample_env (answering timeline_reply) (Some (PDict numbered_timeline_slots)))
        (sample_turn (ascii ''hi'')) fresh_agent)) ''response'' = PStr fallback_general"
proof -
  have nb: "\<not> blank (in_message (sample_turn (ascii ''hi'')))"
    by (simp add: blank_def strip_def is_space_def sample_turn_def ascii_def)
  have rg: "run_graph (sample_env (answering timeline_reply) (Some (PDict numbered_timeline_slots)))
      (clock (sample_turn (ascii ''hi''))) (turn_state (sample_turn (ascii ''hi''))) fresh_agent
    = (Inl (Exc AttributeError
              (quoted (ascii ''int'') @ ascii '' object has no attribute '' @ quoted (ascii ''lower'')),
            fst (extract_slots
              (sample_env (answering timeline_reply) (Some (PDict numbered_timeline_slots)))
              (turn_state (sample_turn (ascii ''hi''))) fresh_agent)),
       fresh_agent\<lparr>llm_calls := 1\<rparr>)"
    by code_simp
  have ex: "extracted_data (fst (extract_slots
              (sample_env (answering timeline_reply) (Some (PDict numbered_timeline_slots)))
              (turn_state (sample_turn (ascii ''hi''))) fresh_agent)) = numbered_timeline_slots"
    by code_simp
  from nb rg ex
    exception_outcome [where inp = "sample_turn (ascii ''hi'')" and a = fresh_agent
      and env = "sample_env (answering timeline_reply) (Some (PDict numbered_timeline_slots))"
      and e = "Exc AttributeError
              (quoted (ascii ''int'') @ ascii '' object has no attribute '' @ quoted (ascii ''lower''))"
      and failed = "fst (extract_slots
              (sample_env (answering timeline_reply) (Some (PDict numbered_timeline_slots)))
              (turn_state (sample_turn (ascii ''hi''))) fresh_agent)"
      and a' = "fresh_agent\<lparr>llm_calls := 1\<rparr>"]
  show ?thesis
    by (simp add: get_fallback_response_def FALLBACK_RESPONSES_def)
qed

text \<open>
  C10 as stated fails in that turn: nothing was seeded from persistence, and the
  outcome's extracted_data holds the slots merged by the failed turn.
\<close>

theorem merged_slots_counterexample:
  "seed_slots (sample_turn (ascii ''hi'')) = []
   \<and> dict_get (fst (process_message
        (sample_env (answering timeline_reply) (Some (PDict numbered_timeline_slots)))
        (sample_turn (ascii ''hi'')) fresh_agent)) ''lead_status'' = PStr (ascii ''error'')
   \<and> dict_get (fst (process_message
        (sample_env (answering timeline_reply) (Some (PDict numbered_timeline_slots)))
        (sample_turn (ascii ''hi'')) fresh_agent)) ''extracted_data''
       = PDict numbered_timeline_slots
   \<and> numbered_timeline_slots \<noteq> []"
  by code_simp

end
